theory Spec2Isabelle
  imports Complex_Main "HOL-Library.Char_ord" "HOL-Library.List_Lexorder" "HOL-Library.Log_Nat"
begin

section \<open>The agricultural data manager (src/src/data\_manager.py)\<close>

text \<open>
  A shallow embedding of \<^verbatim>\<open>AgriculturalDataManager\<close>. A pandas DataFrame is a list of
  typed rows; a nullable cell (NaN, NaT, None) is an \<open>option\<close>; a number is the \<open>real\<close>
  that a float64 denotes (the rounding of float64 arithmetic is modelled where the
  risk score is computed, by the function \<open>float64\<close>; means and standard deviations
  are exact); a timestamp is the integer number of
  nanoseconds since 1970-01-01, as \<^verbatim>\<open>Timestamp.value\<close>. Every \<^verbatim>\<open>raise\<close> of the source
  and every exception of a pandas or statsmodels call the source makes is a value of
  the type \<open>error\<close>. A method that assigns to the manager (\<^verbatim>\<open>self\<close>) takes it and
  returns it, updated.
\<close>

subsection \<open>Data model\<close>

type_synonym timestamp = int

definition day_ns :: int where
  "day_ns = 86400000000000"

definition hour_ns :: int where
  "hour_ns = 3600000000000"

text \<open>The six numeric columns of the weather table (\<^verbatim>\<open>meteo_detaillee.csv\<close>).\<close>

datatype wcol =
  temperature | humidite | precipitation | rayonnement_solaire | vitesse_vent | direction_vent

text \<open>
  The rows of the four tables. A cell that the model types without \<open>option\<close> is
  taken to be present: the date of a row is a parsed date, never null.
\<close>

record weather_row =
  w_date :: timestamp
  w_num :: "wcol \<Rightarrow> real option"

record monitoring_row =
  m_date :: timestamp
  m_parcelle_id :: string
  m_latitude :: real
  m_longitude :: real
  m_ndvi :: "real option"
  m_stress_hydrique :: "real option"
  m_rendement_estime :: "real option"
  m_progression :: "real option"
  m_culture :: "string option"

record soil_row =
  s_parcelle_id :: "string option"
  s_latitude :: real
  s_longitude :: real
  s_capacite_retention_eau :: "real option"

record yield_row =
  y_date :: timestamp
  y_parcelle_id :: string
  y_culture :: "string option"
  y_rendement_final :: "real option"

text \<open>
  A row of the table \<^verbatim>\<open>prepare_features\<close> returns: the monitoring columns but
  \<^verbatim>\<open>culture\<close>, the weather columns, the soil column the risk scorer reads, and the
  columns of the yield history.
\<close>

record feature_row =
  f_date :: timestamp
  f_parcelle_id :: string
  f_latitude :: real
  f_longitude :: real
  f_ndvi :: "real option"
  f_stress_hydrique :: "real option"
  f_rendement_estime :: "real option"
  f_progression :: "real option"
  f_weather :: "wcol \<Rightarrow> real option"
  f_capacite_retention_eau :: "real option"
  f_culture :: "string option"
  f_rendement_final :: "real option"

text \<open>
  A table of the manager. Its \<^verbatim>\<open>date\<close> is a column (as \<^verbatim>\<open>read_csv\<close> leaves it), or the
  index (after \<^verbatim>\<open>set_index('date', inplace=True)\<close>), or the table has no such column:
  that is the weather table \<^verbatim>\<open>pd.DataFrame([])\<close> that \<^verbatim>\<open>load_data\<close> builds when the raw
  weather table has no row.
\<close>

datatype date_place = DateColumn | DateIndex | NoDateColumn

record 'r frame =
  date_at :: date_place
  rows :: "'r list"

record manager =
  monitoring_data :: "monitoring_row frame"
  weather_data :: "weather_row frame"
  soil_data :: "soil_row list"
  yield_history :: "yield_row frame"

datatype error =
    KeyError string
  | LengthMismatch nat nat
  | NoDateIndex
  | EmptyIndex
  | MissingInputValues
  | MissingSoilValues
  | MissingRetention
  | NoYieldData string
  | MissingObservations
  | TooFewObservations nat nat

text \<open>
  \<open>KeyError c\<close>: pandas finds no column \<open>c\<close>. \<open>LengthMismatch\<close>: \<^verbatim>\<open>set_index\<close> with
  an index of another length. \<open>NoDateIndex\<close>: the consistency check reads the
  index of a table whose index is the row numbers, and its date arithmetic fails
  (\<^verbatim>\<open>AttributeError\<close>, \<^verbatim>\<open>TypeError\<close>). \<open>EmptyIndex\<close>: the consistency check takes the
  \<^verbatim>\<open>min()\<close> and \<^verbatim>\<open>max()\<close> of an empty index, which are null, and its date arithmetic
  and comparisons raise on them (\<^verbatim>\<open>TypeError\<close>).
  \<open>MissingInputValues\<close>, \<open>MissingSoilValues\<close>, \<open>MissingRetention\<close>: the three
  \<^verbatim>\<open>ValueError\<close>s of \<^verbatim>\<open>calculate_risk_metrics\<close>. \<open>NoYieldData p\<close>: the
  \<^verbatim>\<open>ValueError\<close> of \<^verbatim>\<open>analyze_yield_patterns\<close> for parcel \<open>p\<close>.
  \<open>MissingObservations\<close>, \<open>TooFewObservations\<close>: the two \<^verbatim>\<open>ValueError\<close>s of
  statsmodels' \<^verbatim>\<open>seasonal_decompose\<close>.
\<close>

subsection \<open>Column operations of pandas\<close>

fun dropna :: "'a option list \<Rightarrow> 'a list" where
  "dropna [] = []"
| "dropna (None # xs) = dropna xs"
| "dropna (Some v # xs) = v # dropna xs"

text \<open>\<^verbatim>\<open>Series.mean()\<close>: the mean of the non-null values, null when there is none.\<close>

definition mean_opt :: "real option list \<Rightarrow> real option" where
  "mean_opt xs =
     (let vs = dropna xs in
      if vs = [] then None else Some (sum_list vs / real (length vs)))"

text \<open>
  The mean of a datetime column: the mean of the nanosecond values. It is never taken
  of an empty block here.
\<close>

definition mean_ts :: "timestamp list \<Rightarrow> timestamp" where
  "mean_ts ds = sum_list ds div int (length ds)"

text \<open>
  \<^verbatim>\<open>pd.to_datetime(t, format="%Y-%m-%d")\<close> applied to a value that is a Timestamp
  already: pandas returns the argument as it is; \<^verbatim>\<open>format\<close> only guides the parsing
  of strings.
\<close>

definition to_datetime :: "timestamp \<Rightarrow> timestamp" where
  "to_datetime t = t"

text \<open>\<^verbatim>\<open>fillna(method='bfill')\<close>: a null takes the next valid value below it.\<close>

fun bfill :: "'a option list \<Rightarrow> 'a option list" where
  "bfill [] = []"
| "bfill (Some v # xs) = Some v # bfill xs"
| "bfill (None # xs) = (case bfill xs of [] \<Rightarrow> [None] | y # ys \<Rightarrow> y # y # ys)"

text \<open>\<^verbatim>\<open>fillna(method='ffill')\<close>: a null takes the last valid value above it.\<close>

fun ffill_from :: "'a option \<Rightarrow> 'a option list \<Rightarrow> 'a option list" where
  "ffill_from prev [] = []"
| "ffill_from prev (Some v # xs) = Some v # ffill_from (Some v) xs"
| "ffill_from prev (None # xs) = prev # ffill_from prev xs"

definition ffill :: "'a option list \<Rightarrow> 'a option list" where
  "ffill xs = ffill_from None xs"

text \<open>
  \<^verbatim>\<open>interpolate(method='linear', limit_direction='both')\<close>: the values are taken as
  equally spaced; a null between two valid values lies on the line through them, a
  null before the first valid value takes it, a null after the last takes that one,
  and a column with no valid value stays null.
\<close>

definition valid_after :: "real option list \<Rightarrow> nat \<Rightarrow> (nat \<times> real) option" where
  "valid_after xs i =
     (case List.map_filter
             (\<lambda>(j, x). case x of None \<Rightarrow> None | Some v \<Rightarrow> if i < j then Some (j, v) else None)
             (enumerate 0 xs) of
        [] \<Rightarrow> None
      | p # _ \<Rightarrow> Some p)"

definition valid_before :: "real option list \<Rightarrow> nat \<Rightarrow> (nat \<times> real) option" where
  "valid_before xs i =
     (case List.map_filter
             (\<lambda>(j, x). case x of None \<Rightarrow> None | Some v \<Rightarrow> if j < i then Some (j, v) else None)
             (rev (enumerate 0 xs)) of
        [] \<Rightarrow> None
      | p # _ \<Rightarrow> Some p)"

definition interpolate_at :: "real option list \<Rightarrow> nat \<Rightarrow> real option" where
  "interpolate_at xs i =
     (case xs ! i of
        Some v \<Rightarrow> Some v
      | None \<Rightarrow>
          (case (valid_before xs i, valid_after xs i) of
             (Some (j, a), Some (k, b)) \<Rightarrow>
               Some (a + (b - a) * real (i - j) / real (k - j))
           | (Some (j, a), None) \<Rightarrow> Some a
           | (None, Some (k, b)) \<Rightarrow> Some b
           | (None, None) \<Rightarrow> None))"

definition interpolate_linear :: "real option list \<Rightarrow> real option list" where
  "interpolate_linear xs = map (interpolate_at xs) [0..<length xs]"

text \<open>\<^verbatim>\<open>Series.unique()\<close>: the distinct values in the order of their first appearance.\<close>

definition unique :: "'a list \<Rightarrow> 'a list" where
  "unique xs = rev (remdups (rev xs))"

text \<open>
  \<^verbatim>\<open>df.loc[mask, cols] = values\<close>, where \<open>values\<close> has one entry for each row of the
  mask, in order: the masked rows take the entries one after the other.
\<close>

fun loc_assign :: "('r \<Rightarrow> bool) \<Rightarrow> ('r \<Rightarrow> 'v \<Rightarrow> 'r) \<Rightarrow> 'r list \<Rightarrow> 'v list \<Rightarrow> 'r list" where
  "loc_assign sel put [] vs = []"
| "loc_assign sel put (r # rs) vs =
     (if sel r then
        (case vs of
           [] \<Rightarrow> r # rs
         | v # vs' \<Rightarrow> put r v # loc_assign sel put rs vs')
      else r # loc_assign sel put rs vs)"

text \<open>
  \<^verbatim>\<open>left.merge(right, how='left', on=keys)\<close>: every left row, in order, once for each
  right row with the same keys (in the right table's order), and once with nulls when
  there is none.
\<close>

definition merge_left :: "('a \<Rightarrow> 'b \<Rightarrow> bool) \<Rightarrow> 'a list \<Rightarrow> 'b list \<Rightarrow> ('a \<times> 'b option) list" where
  "merge_left on ls rs =
     concat (map (\<lambda>l. case filter (on l) rs of
                         [] \<Rightarrow> [(l, None)]
                       | m # ms \<Rightarrow> map (\<lambda>r. (l, Some r)) (m # ms)) ls)"

text \<open>
  \<^verbatim>\<open>pd.merge_asof(left, right, left_index=True, right_index=True)\<close> on two tables
  sorted by date: every left row once, with the last right row whose date is not
  after the left row's (nulls when there is none).
\<close>

definition asof_match :: "weather_row list \<Rightarrow> timestamp \<Rightarrow> weather_row option" where
  "asof_match ws t =
     (case filter (\<lambda>w. w_date w \<le> t) ws of
        [] \<Rightarrow> None
      | v # vs \<Rightarrow> Some (last (v # vs)))"

definition merge_asof ::
  "monitoring_row list \<Rightarrow> weather_row list \<Rightarrow> (monitoring_row \<times> weather_row option) list" where
  "merge_asof ms ws = map (\<lambda>m. (m, asof_match ws (m_date m))) ms"

text \<open>
  \<^verbatim>\<open>table.set_index(other.index)\<close>: pandas raises when the two lengths differ. The rows
  of the model carry their date, which the merge keeps for every copy of a left row;
  when the lengths agree, every left row has one copy and the dates put back by
  position are the rows' own.
\<close>

definition set_index_from :: "'a list \<Rightarrow> 'b list \<Rightarrow> error + 'b list" where
  "set_index_from idx xs =
     (if length xs = length idx then Inr xs else Inl (LengthMismatch (length idx) (length xs)))"

subsection \<open>load\_data: the weather aggregation\<close>

definition chunk_size :: nat where
  "chunk_size = 24"

text \<open>
  \<^verbatim>\<open>chunk_mean = weather_data.iloc[i:i + chunk_size, :].mean()\<close> and
  \<^verbatim>\<open>chunk_mean["date"] = pd.to_datetime(chunk_mean["date"], format="%Y-%m-%d")\<close>.
\<close>

definition chunk_mean :: "weather_row list \<Rightarrow> weather_row" where
  "chunk_mean block =
     \<lparr>w_date = to_datetime (mean_ts (map w_date block)),
      w_num = (\<lambda>c. mean_opt (map (\<lambda>r. w_num r c) block))\<rparr>"

text \<open>The loop \<^verbatim>\<open>for i in range(0, len(self.weather_data), chunk_size)\<close>.\<close>

function aggregate_from :: "nat \<Rightarrow> weather_row list \<Rightarrow> weather_row list" where
  "aggregate_from i ws =
     (if i < length ws
      then chunk_mean (take chunk_size (drop i ws)) # aggregate_from (i + chunk_size) ws
      else [])"
  by pat_completeness auto
termination
  by (relation "measure (\<lambda>(i, ws). length ws - i)") (auto simp: chunk_size_def)

declare aggregate_from.simps [simp del]

text \<open>
  The four arguments are what the four \<^verbatim>\<open>pd.read_csv\<close> calls return. The final yield
  of the history is \<^verbatim>\<open>fillna(0)\<close>. The weather table is rebuilt from the list of the
  block means, \<^verbatim>\<open>pd.DataFrame(result_list)\<close>: from an empty list it is a table with no
  column at all.
\<close>

definition fill_rendement_final :: "yield_row \<Rightarrow> yield_row" where
  "fill_rendement_final y =
     (case y_rendement_final y of
        None \<Rightarrow> y\<lparr>y_rendement_final := Some 0\<rparr>
      | Some v \<Rightarrow> y)"

definition load_data ::
  "monitoring_row list \<Rightarrow> weather_row list \<Rightarrow> soil_row list \<Rightarrow> yield_row list \<Rightarrow> manager" where
  "load_data monitoring weather soil yields =
     \<lparr>monitoring_data = \<lparr>date_at = DateColumn, rows = monitoring\<rparr>,
      weather_data =
        \<lparr>date_at = (if aggregate_from 0 weather = [] then NoDateColumn else DateColumn),
         rows = aggregate_from 0 weather\<rparr>,
      soil_data = soil,
      yield_history = \<lparr>date_at = DateColumn, rows = map fill_rendement_final yields\<rparr>\<rparr>"

subsection \<open>Temporal indices and the consistency report\<close>

text \<open>
  \<^verbatim>\<open>frame.set_index('date', inplace=True)\<close>: the column becomes the index, in place;
  pandas raises \<^verbatim>\<open>KeyError\<close> when the frame has no such column, which is so when the
  date is the index already and when the table has no column.
\<close>

definition set_index_date :: "'r frame \<Rightarrow> error + 'r frame" where
  "set_index_date f =
     (if date_at f = DateColumn then Inr (f\<lparr>date_at := DateIndex\<rparr>) else Inl (KeyError ''date''))"

definition setup_temporal_indices :: "manager \<Rightarrow> error + manager" where
  "setup_temporal_indices s =
     (case set_index_date (monitoring_data s) of
        Inl e \<Rightarrow> Inl e
      | Inr m \<Rightarrow>
          (case set_index_date (weather_data s) of
             Inl e \<Rightarrow> Inl e
           | Inr w \<Rightarrow>
               (case set_index_date (yield_history s) of
                  Inl e \<Rightarrow> Inl e
                | Inr y \<Rightarrow>
                    Inr (s\<lparr>monitoring_data := m, weather_data := w, yield_history := y\<rparr>))))"

text \<open>
  \<^verbatim>\<open>frame.reset_index(inplace=True)\<close>, as \<^verbatim>\<open>AgriculturalMap.add_risk_heatmap\<close>
  (src/src/map\_visualization.py) calls it on the three tables before it prepares the
  features: a date index becomes a column again. (On a frame that has no date index
  the call adds a column of row numbers, which no method reads.)
\<close>

definition reset_index :: "'r frame \<Rightarrow> 'r frame" where
  "reset_index f = (if date_at f = DateIndex then f\<lparr>date_at := DateColumn\<rparr> else f)"

definition reset_indices :: "manager \<Rightarrow> manager" where
  "reset_indices s =
     s\<lparr>monitoring_data := reset_index (monitoring_data s),
       weather_data := reset_index (weather_data s),
       yield_history := reset_index (yield_history s)\<rparr>"

text \<open>
  \<^verbatim>\<open>(index.min(), index.max())\<close>. The date column of a table read from a file without
  records has the dtype \<^verbatim>\<open>object\<close>, and on the empty index made of it both are \<^verbatim>\<open>nan\<close>;
  the subtraction and the comparisons the check makes between \<^verbatim>\<open>nan\<close> and a Timestamp
  raise \<^verbatim>\<open>TypeError\<close>. The model raises where the bounds are taken.
\<close>

definition index_bounds :: "timestamp list \<Rightarrow> error + timestamp \<times> timestamp" where
  "index_bounds ds = (case ds of [] \<Rightarrow> Inl EmptyIndex | d # r \<Rightarrow> Inr (fold min r d, fold max r d))"

text \<open>
  \<^verbatim>\<open>abs((a - b).days) <= tolerance.days\<close> with a tolerance of one day: \<^verbatim>\<open>.days\<close> is the
  number of whole days, rounded down.
\<close>

definition days_apart :: "timestamp \<Rightarrow> timestamp \<Rightarrow> int" where
  "days_apart a b = (a - b) div day_ns"

definition tolerance_days :: int where
  "tolerance_days = 1"

definition within_tolerance :: "int \<Rightarrow> bool" where
  "within_tolerance d = (\<bar>d\<bar> \<le> tolerance_days)"

text \<open>
  \<^verbatim>\<open>pd.date_range(start=a, end=b)\<close>: the days from \<open>a\<close> on that are not after \<open>b\<close>.
\<close>

definition date_range :: "timestamp \<Rightarrow> timestamp \<Rightarrow> timestamp list" where
  "date_range a b = map (\<lambda>k. a + k * day_ns) [0..(b - a) div day_ns]"

text \<open>
  The report: the three periods and the three verdict lines. The text of a line is
  the UTF-8 encoding of the source's string.
\<close>

record report =
  monitoring_range :: "timestamp \<times> timestamp"
  weather_range :: "timestamp \<times> timestamp"
  yield_range :: "timestamp \<times> timestamp"
  monitoring_weather_line :: string
  yield_line :: string
  missing_dates_line :: string

definition arrow :: string where
  "arrow = [CHR 0xE2, CHR 0x86, CHR 0x92]"

definition e_acute :: string where
  "e_acute = [CHR 0xC3, CHR 0xA9]"

definition line_ok :: string where
  "line_ok = ''   '' @ arrow @ '' OK''"

definition line_incoherence :: string where
  "line_incoherence =
     ''   '' @ arrow @ '' Incoh'' @ e_acute @ ''rence d'' @ e_acute @ ''tect'' @ e_acute @ ''e''"

definition line_yield_exceeds :: string where
  "line_yield_exceeds =
     line_incoherence @ '' : La p'' @ e_acute @ ''riode des rendements d'' @ e_acute
       @ ''passe celle du monitoring''"

definition line_missing :: string where
  "line_missing =
     ''   '' @ arrow @ '' Des dates manquent dans le jeu de donn'' @ e_acute
       @ ''es de monitoring''"

text \<open>
  The method reads \<^verbatim>\<open>self.monitoring_data.index\<close> and the two other indices as dates;
  \<^verbatim>\<open>prepare_features\<close> calls it right after \<^verbatim>\<open>_setup_temporal_indices\<close>. It assigns
  nothing to \<^verbatim>\<open>self\<close> and prints the report, which the model returns.
\<close>

definition date_indexed :: "manager \<Rightarrow> bool" where
  "date_indexed s =
     (date_at (monitoring_data s) = DateIndex \<and> date_at (weather_data s) = DateIndex \<and>
      date_at (yield_history s) = DateIndex)"

definition verify_temporal_consistency :: "manager \<Rightarrow> error + manager \<times> report" where
  "verify_temporal_consistency s =
     (if \<not> date_indexed s then Inl NoDateIndex else
      let m_index = map m_date (rows (monitoring_data s));
          w_index = map w_date (rows (weather_data s));
          y_index = map y_date (rows (yield_history s))
      in case index_bounds m_index of
           Inl e \<Rightarrow> Inl e
         | Inr m_range \<Rightarrow>
        (case index_bounds w_index of
           Inl e \<Rightarrow> Inl e
         | Inr w_range \<Rightarrow>
        (case index_bounds y_index of
           Inl e \<Rightarrow> Inl e
         | Inr y_range \<Rightarrow>
             (let monitoring_weather_consistent =
                    (within_tolerance (days_apart (fst m_range) (fst w_range)) \<and>
                     within_tolerance (days_apart (snd m_range) (snd w_range)));
                  yield_consistent =
                    (fst m_range \<le> fst y_range \<and> snd y_range \<le> snd m_range);
                  expected_dates = date_range (fst m_range) (snd m_range);
                  missing_dates = (m_index \<noteq> expected_dates)
              in Inr (s,
                   \<lparr>monitoring_range = m_range,
                    weather_range = w_range,
                    yield_range = y_range,
                    monitoring_weather_line =
                      (if monitoring_weather_consistent then line_ok else line_incoherence),
                    yield_line = (if yield_consistent then line_ok else line_yield_exceeds),
                    missing_dates_line =
                      (if \<not> missing_dates then line_ok else line_missing)\<rparr>)))))"

subsection \<open>prepare\_features\<close>

text \<open>
  \<^verbatim>\<open>sort_index()\<close> is a stable sort by date here (pandas leaves the order of rows with
  equal dates to the sorting algorithm).
\<close>

definition combine_weather ::
  "manager \<Rightarrow> (monitoring_row \<times> weather_row option) list" where
  "combine_weather s =
     merge_asof (sort_key m_date (rows (monitoring_data s)))
                (sort_key w_date (rows (weather_data s)))"

definition soil_keys :: "monitoring_row \<times> weather_row option \<Rightarrow> soil_row \<Rightarrow> bool" where
  "soil_keys l r =
     (s_parcelle_id r = Some (m_parcelle_id (fst l)) \<and>
      s_latitude r = m_latitude (fst l) \<and> s_longitude r = m_longitude (fst l))"

definition combine_soil ::
  "manager \<Rightarrow> (monitoring_row \<times> weather_row option) list \<Rightarrow>
     error + ((monitoring_row \<times> weather_row option) \<times> soil_row option) list" where
  "combine_soil s combined_1 =
     set_index_from combined_1 (merge_left soil_keys combined_1 (soil_data s))"

definition yield_keys ::
  "(monitoring_row \<times> weather_row option) \<times> soil_row option \<Rightarrow> yield_row \<Rightarrow> bool" where
  "yield_keys l r =
     (y_date r = m_date (fst (fst l)) \<and> y_parcelle_id r = m_parcelle_id (fst (fst l)))"

text \<open>
  A row of the merged table. \<^verbatim>\<open>data.drop(columns=['culture'])\<close> removes the culture
  that came with the monitoring table before the merge, so the culture of the result
  is the column of the yield history.
\<close>

definition feature_of ::
  "((monitoring_row \<times> weather_row option) \<times> soil_row option) \<times> yield_row option \<Rightarrow> feature_row" where
  "feature_of x =
     (let m = fst (fst (fst x)); w = snd (fst (fst x)); so = snd (fst x); y = snd x
      in \<lparr>f_date = m_date m,
          f_parcelle_id = m_parcelle_id m,
          f_latitude = m_latitude m,
          f_longitude = m_longitude m,
          f_ndvi = m_ndvi m,
          f_stress_hydrique = m_stress_hydrique m,
          f_rendement_estime = m_rendement_estime m,
          f_progression = m_progression m,
          f_weather = (case w of None \<Rightarrow> (\<lambda>c. None) | Some r \<Rightarrow> w_num r),
          f_capacite_retention_eau = (case so of None \<Rightarrow> None | Some r \<Rightarrow> s_capacite_retention_eau r),
          f_culture = (case y of None \<Rightarrow> None | Some r \<Rightarrow> y_culture r),
          f_rendement_final = (case y of None \<Rightarrow> None | Some r \<Rightarrow> y_rendement_final r)\<rparr>)"

definition enrich_with_yield_history ::
  "manager \<Rightarrow> ((monitoring_row \<times> weather_row option) \<times> soil_row option) list \<Rightarrow>
     error + feature_row list" where
  "enrich_with_yield_history s data =
     (case set_index_from data (merge_left yield_keys data (rows (yield_history s))) of
        Inl e \<Rightarrow> Inl e
      | Inr enriched_data \<Rightarrow> Inr (map feature_of enriched_data))"

text \<open>
  The first loop over the parcels: the six weather columns of the parcel's rows are
  filled backward, then forward, and written back.
\<close>

definition fill_carry :: "string \<Rightarrow> feature_row list \<Rightarrow> feature_row list" where
  "fill_carry parcelle features =
     (let parcelle_data = filter (\<lambda>r. f_parcelle_id r = parcelle) features;
          filled_data =
            map (\<lambda>k. (\<lambda>c. ffill (bfill (map (\<lambda>r. f_weather r c) parcelle_data)) ! k))
                [0..<length parcelle_data]
      in loc_assign (\<lambda>r. f_parcelle_id r = parcelle) (\<lambda>r v. r\<lparr>f_weather := v\<rparr>)
           features filled_data)"

text \<open>The second loop: the two interpolated columns.\<close>

definition fill_interpolate :: "string \<Rightarrow> feature_row list \<Rightarrow> feature_row list" where
  "fill_interpolate parcelle features =
     (let parcelle_data = filter (\<lambda>r. f_parcelle_id r = parcelle) features;
          interpolated_data =
            zip (interpolate_linear (map f_rendement_estime parcelle_data))
                (interpolate_linear (map f_progression parcelle_data))
      in loc_assign (\<lambda>r. f_parcelle_id r = parcelle)
           (\<lambda>r v. r\<lparr>f_rendement_estime := fst v, f_progression := snd v\<rparr>)
           features interpolated_data)"

definition fillna_rendement_final :: "feature_row \<Rightarrow> feature_row" where
  "fillna_rendement_final r =
     (case f_rendement_final r of
        None \<Rightarrow> r\<lparr>f_rendement_final := Some 0\<rparr>
      | Some v \<Rightarrow> r)"

definition gap_fill :: "feature_row list \<Rightarrow> feature_row list" where
  "gap_fill features =
     (let f1 = fold fill_carry (unique (map f_parcelle_id features)) features;
          f2 = fold fill_interpolate (unique (map f_parcelle_id f1)) f1
      in map fillna_rendement_final f2)"

definition prepare_features :: "manager \<Rightarrow> error + manager \<times> feature_row list" where
  "prepare_features s0 =
     (case setup_temporal_indices s0 of
        Inl e \<Rightarrow> Inl e
      | Inr s1 \<Rightarrow>
          (case verify_temporal_consistency s1 of
             Inl e \<Rightarrow> Inl e
           | Inr (s, rep) \<Rightarrow>
               (let combined_1 = combine_weather s
                in case combine_soil s combined_1 of
                     Inl e \<Rightarrow> Inl e
                   | Inr combined_2 \<Rightarrow>
                       (case enrich_with_yield_history s combined_2 of
                          Inl e \<Rightarrow> Inl e
                        | Inr features \<Rightarrow> Inr (s, gap_fill features)))))"

subsection \<open>calculate\_risk\_metrics\<close>

record risk_row =
  r_parcelle_id :: string
  mean_stress :: "real option"
  stress_variability :: "real option"
  mean_temperature :: "real option"
  capacite_retention_eau :: "real option"
  risk_score :: "real option"

text \<open>
  \<^verbatim>\<open>Series.std()\<close>: the sample standard deviation (one degree of freedom less) of the
  non-null values, null when there are fewer than two.
\<close>

definition std_opt :: "real option list \<Rightarrow> real option" where
  "std_opt xs =
     (let vs = dropna xs; n = length vs in
      if n < 2 then None
      else (let mu = sum_list vs / real n
            in Some (sqrt (sum_list (map (\<lambda>v. (v - mu)\<^sup>2) vs) / real (n - 1)))))"

text \<open>\<^verbatim>\<open>groupby('parcelle_id')\<close>: the groups come in the sorted order of their keys.\<close>

definition group_keys :: "feature_row list \<Rightarrow> string list" where
  "group_keys data = sort (remdups (map f_parcelle_id data))"

definition group_of :: "feature_row list \<Rightarrow> string \<Rightarrow> feature_row list" where
  "group_of data p = filter (\<lambda>r. f_parcelle_id r = p) data"

text \<open>
  The arithmetic of float64 (IEEE 754 binary64): the result of an operation is the
  exact result rounded to the nearest number with a significand of 53 bits, a tie
  going to the even significand. The numbers with the binary exponent \<open>e\<close>, from
  \<open>2 powi e\<close> to \<open>2 powi (e + 1)\<close>, are the multiples of \<open>2 powi (e - 52)\<close>; below
  \<open>2 powi - 1022\<close> they are the multiples of \<open>2 powi - 1074\<close> (subnormal numbers).
  The exponent of \<open>x\<close> is \<open>\<lfloor>log 2 \<bar>x\<bar>\<rfloor>\<close>, and at least \<open>- 1022\<close>; it is computed
  as the number of binary digits (\<open>bitlen\<close>) of the integer part of \<open>\<bar>x\<bar>\<close>, or of
  \<open>1 / \<bar>x\<bar>\<close> rounded up. Results of a magnitude beyond the largest float64
  (infinities) are not modelled. A literal such as \<^verbatim>\<open>0.4\<close> is the float64 nearest to it.
\<close>

definition round_even :: "real \<Rightarrow> int" where
  "round_even r =
     (let f = \<lfloor>r\<rfloor>; d = r - of_int f
      in if d < 1 / 2 then f else if 1 / 2 < d then f + 1 else if even f then f else f + 1)"

definition exponent :: "real \<Rightarrow> int" where
  "exponent x =
     (if 1 \<le> \<bar>x\<bar> then bitlen \<lfloor>\<bar>x\<bar>\<rfloor> - 1
      else max (- bitlen (\<lceil>1 / \<bar>x\<bar>\<rceil> - 1)) (- 1022))"

definition float64 :: "real \<Rightarrow> real" where
  "float64 x =
     (if x = 0 then 0
      else (let u = 2 powi (exponent x - 52)
            in of_int (round_even (x / u)) * u))"

definition float_add :: "real \<Rightarrow> real \<Rightarrow> real" where
  "float_add a b = float64 (a + b)"

definition float_sub :: "real \<Rightarrow> real \<Rightarrow> real" where
  "float_sub a b = float64 (a - b)"

definition float_mul :: "real \<Rightarrow> real \<Rightarrow> real" where
  "float_mul a b = float64 (a * b)"

text \<open>
  The score of a row, as Python evaluates the expression of the source: the four
  products, added from left to right. On nullable numbers a null operand gives null.
\<close>

definition risk_formula :: "real \<Rightarrow> real \<Rightarrow> real \<Rightarrow> real \<Rightarrow> real" where
  "risk_formula ms sv cr mt =
     float_add
       (float_add
          (float_add (float_mul ms (float64 0.4)) (float_mul sv (float64 0.3)))
          (float_mul (float_sub 1 cr) (float64 0.2)))
       (float_mul mt (float64 0.1))"

definition risk_score_of ::
  "real option \<Rightarrow> real option \<Rightarrow> real option \<Rightarrow> real option \<Rightarrow> real option" where
  "risk_score_of ms sv cr mt =
     (case (ms, sv, cr, mt) of
        (Some a, Some b, Some c, Some d) \<Rightarrow> Some (risk_formula a b c d)
      | _ \<Rightarrow> None)"

definition has_null_inputs :: "feature_row list \<Rightarrow> bool" where
  "has_null_inputs data =
     list_ex (\<lambda>r. f_stress_hydrique r = None \<or> f_weather r temperature = None) data"

definition soil_has_nulls :: "soil_row list \<Rightarrow> bool" where
  "soil_has_nulls soil =
     list_ex (\<lambda>r. s_parcelle_id r = None \<or> s_capacite_retention_eau r = None) soil"

text \<open>
  The rows of \<^verbatim>\<open>stress_metrics\<close> after the left join with the soil's retention column
  (indexed by \<^verbatim>\<open>parcelle_id\<close>), before the score is added.
\<close>

definition stress_metrics :: "soil_row list \<Rightarrow> feature_row list \<Rightarrow> risk_row list" where
  "stress_metrics soil data =
     map (\<lambda>(p, so).
            \<lparr>r_parcelle_id = p,
             mean_stress = mean_opt (map f_stress_hydrique (group_of data p)),
             stress_variability = std_opt (map f_stress_hydrique (group_of data p)),
             mean_temperature = mean_opt (map (\<lambda>r. f_weather r temperature) (group_of data p)),
             capacite_retention_eau =
               (case so of None \<Rightarrow> None | Some r \<Rightarrow> s_capacite_retention_eau r),
             risk_score = None\<rparr>)
         (merge_left (\<lambda>p r. s_parcelle_id r = Some p) (group_keys data) soil)"

definition add_risk_score :: "risk_row \<Rightarrow> risk_row" where
  "add_risk_score r =
     r\<lparr>risk_score :=
         risk_score_of (mean_stress r) (stress_variability r)
           (capacite_retention_eau r) (mean_temperature r)\<rparr>"

definition calculate_risk_metrics :: "manager \<Rightarrow> feature_row list \<Rightarrow> error + risk_row list" where
  "calculate_risk_metrics s data =
     (if has_null_inputs data then Inl MissingInputValues
      else if soil_has_nulls (soil_data s) then Inl MissingSoilValues
      else (let metrics = stress_metrics (soil_data s) data
            in if list_ex (\<lambda>r. capacite_retention_eau r = None) metrics
               then Inl MissingRetention
               else Inr (map add_risk_score metrics)))"

subsection \<open>analyze\_yield\_patterns\<close>

text \<open>
  statsmodels' \<^verbatim>\<open>seasonal_decompose(x, model='additive', period=p)\<close>. The trend is the
  centred moving average of \<open>x\<close> (\<^verbatim>\<open>convolution_filter\<close> with the weights below, null
  where the window leaves the series); the seasonal component repeats the means of
  the detrended series over the positions of one period, centred at zero; the
  residual is what is left. The function raises when a value is missing and when
  the series has fewer than \<open>2 * p\<close> observations.
\<close>

definition trend_filter :: "nat \<Rightarrow> real list" where
  "trend_filter p =
     (if even p
      then [0.5 / real p] @ replicate (p - 1) (1 / real p) @ [0.5 / real p]
      else replicate p (1 / real p))"

definition convolution_filter :: "real list \<Rightarrow> real list \<Rightarrow> real option list" where
  "convolution_filter x filt =
     (let h = (length filt - 1) div 2
      in map (\<lambda>i. if h \<le> i \<and> i + h < length x
                   then Some (sum_list (map (\<lambda>j. filt ! j * x ! (i + h - j)) [0..<length filt]))
                   else None)
             [0..<length x])"

definition sub_opt :: "real option \<Rightarrow> real option \<Rightarrow> real option" where
  "sub_opt a b = (case (a, b) of (Some u, Some v) \<Rightarrow> Some (u - v) | _ \<Rightarrow> None)"

text \<open>\<^verbatim>\<open>np.mean\<close>: null as soon as one value is null.\<close>

definition np_mean :: "real option list \<Rightarrow> real option" where
  "np_mean xs = (if list_ex (\<lambda>x. x = None) xs then None else mean_opt xs)"

definition seasonal_mean :: "real option list \<Rightarrow> nat \<Rightarrow> real option list" where
  "seasonal_mean x p =
     map (\<lambda>i. mean_opt (map (\<lambda>k. x ! k) (filter (\<lambda>k. k mod p = i) [0..<length x]))) [0..<p]"

record decomposed_yield =
  trend :: "real option list"
  seasonal :: "real option list"
  resid :: "real option list"
  observed :: "real option list"

definition seasonal_decompose :: "real option list \<Rightarrow> nat \<Rightarrow> error + decomposed_yield" where
  "seasonal_decompose xs p =
     (if list_ex (\<lambda>x. x = None) xs then Inl MissingObservations
      else if length xs < 2 * p then Inl (TooFewObservations (2 * p) (length xs))
      else
        (let x = dropna xs;
             trend = convolution_filter x (trend_filter p);
             detrended = map (\<lambda>(a, b). sub_opt a b) (zip xs trend);
             means = seasonal_mean detrended p;
             period_averages = map (\<lambda>a. sub_opt a (np_mean means)) means;
             seasonal = map (\<lambda>i. period_averages ! (i mod p)) [0..<length xs];
             resid = map (\<lambda>(a, b). sub_opt a b) (zip detrended seasonal)
         in Inr \<lparr>trend = trend, seasonal = seasonal, resid = resid, observed = xs\<rparr>))"

text \<open>
  \<^verbatim>\<open>history.sort_index(inplace=True)\<close> sorts the parcel's records by date when the
  date is the index, and by row number (the order they have) when it is not.
\<close>

definition sort_index :: "yield_row frame \<Rightarrow> yield_row list \<Rightarrow> yield_row list" where
  "sort_index f history = (if date_at f = DateIndex then sort_key y_date history else history)"

definition analyze_yield_patterns :: "manager \<Rightarrow> string \<Rightarrow> error + decomposed_yield" where
  "analyze_yield_patterns s parcelle_id =
     (let history = filter (\<lambda>y. y_parcelle_id y = parcelle_id) (rows (yield_history s))
      in if history = [] then Inl (NoYieldData parcelle_id)
         else seasonal_decompose
                (map y_rendement_final (sort_index (yield_history s) history)) 1)"

subsection \<open>Views and conditions used to state the properties\<close>

text \<open>
  The column \<open>c\<close> of the rows of parcel \<open>p\<close>, in the table's order: the slice the
  gap filler works on.
\<close>

definition parcel_column :: "string \<Rightarrow> wcol \<Rightarrow> feature_row list \<Rightarrow> real option list" where
  "parcel_column p c features =
     map (\<lambda>r. f_weather r c) (filter (\<lambda>r. f_parcelle_id r = p) features)"

text \<open>
  The conditions on the input of \<^verbatim>\<open>calculate_risk_metrics\<close>: a soil record without
  retention capacity, a soil record without \<^verbatim>\<open>parcelle_id\<close>, and a parcel of the input
  with no soil record.
\<close>

definition soil_lacks_retention :: "soil_row list \<Rightarrow> bool" where
  "soil_lacks_retention soil = list_ex (\<lambda>r. s_capacite_retention_eau r = None) soil"

definition soil_lacks_parcelle_id :: "soil_row list \<Rightarrow> bool" where
  "soil_lacks_parcelle_id soil = list_ex (\<lambda>r. s_parcelle_id r = None) soil"

definition parcel_without_soil :: "soil_row list \<Rightarrow> feature_row list \<Rightarrow> bool" where
  "parcel_without_soil soil data =
     list_ex (\<lambda>r. Some (f_parcelle_id r) \<notin> set (map s_parcelle_id soil)) data"

text \<open>
  A row of \<^verbatim>\<open>stress_metrics\<close> before the score is added, from a parcel and the soil
  record the left join gives it.
\<close>

definition metrics_row :: "feature_row list \<Rightarrow> string \<times> soil_row option \<Rightarrow> risk_row" where
  "metrics_row data x =
     \<lparr>r_parcelle_id = fst x,
      mean_stress = mean_opt (map f_stress_hydrique (group_of data (fst x))),
      stress_variability = std_opt (map f_stress_hydrique (group_of data (fst x))),
      mean_temperature = mean_opt (map (\<lambda>r. f_weather r temperature) (group_of data (fst x))),
      capacite_retention_eau =
        (case snd x of None \<Rightarrow> None | Some r \<Rightarrow> s_capacite_retention_eau r),
      risk_score = None\<rparr>"

text \<open>
  The records of a parcel in the yield history, and the state of the history after
  \<^verbatim>\<open>load_data\<close>: no final yield is null.
\<close>

definition parcel_history :: "manager \<Rightarrow> string \<Rightarrow> yield_row list" where
  "parcel_history s p = filter (\<lambda>y. y_parcelle_id y = p) (rows (yield_history s))"

definition yield_filled :: "manager \<Rightarrow> bool" where
  "yield_filled s = list_all (\<lambda>y. y_rendement_final y \<noteq> None) (rows (yield_history s))"

text \<open>
  The date is a column of the three dated tables, as after \<^verbatim>\<open>load_data\<close> or
  \<^verbatim>\<open>reset_index\<close>.
\<close>

definition date_columns :: "manager \<Rightarrow> bool" where
  "date_columns s =
     (date_at (monitoring_data s) = DateColumn \<and> date_at (weather_data s) = DateColumn \<and>
      date_at (yield_history s) = DateColumn)"

text \<open>
  The yield-history records and the soil records that match a Monitoring row on the
  join keys, and the culture the yield history gives the row.
\<close>

definition yield_matches :: "manager \<Rightarrow> monitoring_row \<Rightarrow> yield_row list" where
  "yield_matches s m =
     filter (\<lambda>y. y_date y = m_date m \<and> y_parcelle_id y = m_parcelle_id m) (rows (yield_history s))"

definition soil_matches :: "manager \<Rightarrow> monitoring_row \<Rightarrow> soil_row list" where
  "soil_matches s m =
     filter (\<lambda>r. s_parcelle_id r = Some (m_parcelle_id m) \<and>
                 s_latitude r = m_latitude m \<and> s_longitude r = m_longitude m) (soil_data s)"

definition yield_culture :: "manager \<Rightarrow> monitoring_row \<Rightarrow> string option" where
  "yield_culture s m = (case yield_matches s m of [] \<Rightarrow> None | y # _ \<Rightarrow> y_culture y)"

subsection \<open>Example tables\<close>

text \<open>
  Dates as timestamps: 2021-01-01 is day 18628 after 1970-01-01, and 2021 has 365
  days.
\<close>

definition date_2021 :: "int \<Rightarrow> timestamp" where
  "date_2021 day_of_year = (18628 + (day_of_year - 1)) * day_ns"

text \<open>
  Rows for the examples: the cells that are not given are 0 or null.
\<close>

definition monitoring_record :: "timestamp \<Rightarrow> string \<Rightarrow> string \<Rightarrow> monitoring_row" where
  "monitoring_record d p c =
     \<lparr>m_date = d, m_parcelle_id = p, m_latitude = 0, m_longitude = 0, m_ndvi = None,
      m_stress_hydrique = None, m_rendement_estime = None, m_progression = None,
      m_culture = Some c\<rparr>"

definition weather_record :: "timestamp \<Rightarrow> real \<Rightarrow> weather_row" where
  "weather_record d t = \<lparr>w_date = d, w_num = (\<lambda>c. Some t)\<rparr>"

definition soil_entry :: "string option \<Rightarrow> real option \<Rightarrow> soil_row" where
  "soil_entry p w = \<lparr>s_parcelle_id = p, s_latitude = 0, s_longitude = 0, s_capacite_retention_eau = w\<rparr>"

definition yield_record :: "timestamp \<Rightarrow> string \<Rightarrow> real option \<Rightarrow> yield_row" where
  "yield_record d p v = \<lparr>y_date = d, y_parcelle_id = p, y_culture = None, y_rendement_final = v\<rparr>"

definition carry_row :: "string \<Rightarrow> timestamp \<Rightarrow> real option \<Rightarrow> feature_row" where
  "carry_row p d t =
     \<lparr>f_date = d, f_parcelle_id = p, f_latitude = 0, f_longitude = 0, f_ndvi = None,
      f_stress_hydrique = None, f_rendement_estime = None, f_progression = None,
      f_weather = (\<lambda>c. if c = temperature then t else None),
      f_capacite_retention_eau = None, f_culture = None, f_rendement_final = None\<rparr>"

definition stress_row :: "string \<Rightarrow> real \<Rightarrow> real \<Rightarrow> feature_row" where
  "stress_row p x t =
     \<lparr>f_date = 0, f_parcelle_id = p, f_latitude = 0, f_longitude = 0, f_ndvi = None,
      f_stress_hydrique = Some x, f_rendement_estime = None, f_progression = None,
      f_weather = (\<lambda>c. if c = temperature then Some t else None),
      f_capacite_retention_eau = None, f_culture = None, f_rendement_final = Some 0\<rparr>"

text \<open>
  A feature table in which parcel P1 has ten rows whose temperature is valid at the
  positions 2, 5 and 9 only (and parcel P2 one row in between).
\<close>

definition gap_example :: "feature_row list" where
  "gap_example =
     [carry_row ''P1'' 0 None, carry_row ''P1'' 1 None, carry_row ''P1'' 2 (Some 10),
      carry_row ''P2'' 2 None,
      carry_row ''P1'' 3 None, carry_row ''P1'' 4 None, carry_row ''P1'' 5 (Some 20),
      carry_row ''P1'' 6 None, carry_row ''P1'' 7 None, carry_row ''P1'' 8 None,
      carry_row ''P1'' 9 (Some 30)]"

text \<open>
  An input of the risk scorer: one row of parcel P1 and three of parcel P2; the soil
  records of the two parcels; the same with a record that has no \<^verbatim>\<open>parcelle_id\<close>, and
  with a second record for P1.
\<close>

definition risk_data :: "feature_row list" where
  "risk_data = [stress_row ''P2'' 1 20, stress_row ''P1'' 5 25, stress_row ''P2'' 2 21, stress_row ''P2'' 3 22]"

definition risk_soil :: "soil_row list" where
  "risk_soil = [soil_entry (Some ''P1'') (Some 0.3), soil_entry (Some ''P2'') (Some 0.6)]"

definition risk_soil_unnamed :: "soil_row list" where
  "risk_soil_unnamed = soil_entry None (Some 0.5) # risk_soil"

definition risk_soil_twice :: "soil_row list" where
  "risk_soil_twice = soil_entry (Some ''P1'') (Some 0.4) # risk_soil"

definition soil_manager :: "soil_row list \<Rightarrow> manager" where
  "soil_manager soil = load_data [] [] soil []"

text \<open>
  Soil records whose retention capacities, 0.25 and 0.625, are float64 numbers, and the
  rows the scorer returns for them: the score of parcel P2 is the float64 that prints
  as 3.2750000000000004. A table with the single row of a parcel.
\<close>

definition score_soil :: "soil_row list" where
  "score_soil = [soil_entry (Some ''P1'') (Some (1 / 4)), soil_entry (Some ''P2'') (Some (5 / 8))]"

definition risk_row_P1 :: "real \<Rightarrow> risk_row" where
  "risk_row_P1 ms =
     \<lparr>r_parcelle_id = ''P1'', mean_stress = Some ms, stress_variability = None,
      mean_temperature = Some 25, capacite_retention_eau = Some (1 / 4), risk_score = None\<rparr>"

definition risk_row_P2 :: risk_row where
  "risk_row_P2 =
     \<lparr>r_parcelle_id = ''P2'', mean_stress = Some 2, stress_variability = Some 1,
      mean_temperature = Some 21, capacite_retention_eau = Some (5 / 8),
      risk_score = Some (1843661097454797 / 562949953421312)\<rparr>"

definition single_row_data :: "real \<Rightarrow> feature_row list" where
  "single_row_data ms = [stress_row ''P1'' ms 25]"

text \<open>
  A yield history as read: three records of parcel P1, one of them without final
  yield, and one record of parcel P2.
\<close>

definition yield_example :: "yield_row list" where
  "yield_example =
     [yield_record 0 ''P1'' (Some 5), yield_record (365 * day_ns) ''P1'' None,
      yield_record (730 * day_ns) ''P1'' (Some 7), yield_record 0 ''P2'' (Some 4)]"

text \<open>
  The tables as \<^verbatim>\<open>_setup_temporal_indices\<close> leaves them when it succeeds.
\<close>

definition with_date_index :: "manager \<Rightarrow> manager" where
  "with_date_index s =
     s\<lparr>monitoring_data := (monitoring_data s)\<lparr>date_at := DateIndex\<rparr>,
       weather_data := (weather_data s)\<lparr>date_at := DateIndex\<rparr>,
       yield_history := (yield_history s)\<lparr>date_at := DateIndex\<rparr>\<rparr>"

text \<open>
  Tables for the consistency check. Monitoring runs from 2021-01-01 to 2021-12-31. A
  yield history of one record, of 2021-02-01. A raw weather table of 24 records for
  each of two days, all stamped with their day at midnight, so that the aggregated
  Weather runs from the given first day to 2021-12-30; and one of hourly records,
  from 00:00 to 23:00, of 2021-01-02 and of 2021-12-30. \<open>check_tables\<close> are the
  tables as loaded, \<open>check_state\<close> with the date as index.
\<close>

definition year_2021 :: "monitoring_row list" where
  "year_2021 =
     [monitoring_record (date_2021 1) ''P1'' ''Ble'',
      monitoring_record (date_2021 365) ''P1'' ''Ble'']"

definition check_yields :: "yield_row list" where
  "check_yields = [yield_record (date_2021 32) ''P1'' (Some 5)]"

definition daily_weather :: "timestamp \<Rightarrow> weather_row list" where
  "daily_weather weather_start =
     replicate 24 (weather_record weather_start 10) @
     replicate 24 (weather_record (date_2021 364) 12)"

definition hourly_day :: "timestamp \<Rightarrow> weather_row list" where
  "hourly_day d = map (\<lambda>k. weather_record (d + k * hour_ns) 10) [0..23]"

definition hourly_weather :: "weather_row list" where
  "hourly_weather = hourly_day (date_2021 2) @ hourly_day (date_2021 364)"

definition check_tables ::
  "monitoring_row list \<Rightarrow> weather_row list \<Rightarrow> yield_row list \<Rightarrow> manager" where
  "check_tables monitoring weather yields = load_data monitoring weather [] yields"

definition check_state ::
  "monitoring_row list \<Rightarrow> weather_row list \<Rightarrow> yield_row list \<Rightarrow> manager" where
  "check_state monitoring weather yields = with_date_index (check_tables monitoring weather yields)"

text \<open>
  Loaded tables: three Monitoring rows (wheat and barley), two raw weather rows, the
  soil records of P1 and P2, and one yield record, of maize, for P1 on 2021-01-01;
  and the same tables with the date as index.
\<close>

definition feature_example :: manager where
  "feature_example =
     load_data
       [monitoring_record (date_2021 2) ''P1'' ''Ble'',
        monitoring_record (date_2021 1) ''P1'' ''Ble'',
        monitoring_record (date_2021 1) ''P2'' ''Orge'']
       [weather_record (date_2021 1) 10, weather_record (date_2021 1 + hour_ns) 12]
       risk_soil
       [(yield_record (date_2021 1) ''P1'' (Some 5))\<lparr>y_culture := Some ''Mais''\<rparr>]"

definition feature_example_indexed :: manager where
  "feature_example_indexed =
     feature_example
       \<lparr>monitoring_data := (monitoring_data feature_example)\<lparr>date_at := DateIndex\<rparr>,
        weather_data := (weather_data feature_example)\<lparr>date_at := DateIndex\<rparr>,
        yield_history := (yield_history feature_example)\<lparr>date_at := DateIndex\<rparr>\<rparr>"

text \<open>
  One day of hourly weather records, 2021-01-01 00:00 to 23:00.
\<close>

definition hourly_example :: "weather_row list" where
  "hourly_example = map (\<lambda>k. weather_record (date_2021 1 + k * hour_ns) (10 + real_of_int k)) [0..23]"

section \<open>Properties\<close>

subsection \<open>The gap filler\<close>

lemma length_bfill [simp]: "length (bfill xs) = length xs"
  by (induction xs rule: bfill.induct) (auto split: list.splits)

lemma length_ffill_from [simp]: "length (ffill_from p xs) = length xs"
  by (induction p xs rule: ffill_from.induct) auto

lemma length_ffill [simp]: "length (ffill xs) = length xs"
  by (simp add: ffill_def)

lemma length_loc_assign [simp]: "length (loc_assign sel put rs vs) = length rs"
  by (induction sel put rs vs rule: loc_assign.induct) (auto split: list.splits)

lemma filter_loc_assign_same:
  assumes "\<And>r v. sel (put r v) = sel r" "length vs = length (filter sel rs)"
  shows "filter sel (loc_assign sel put rs vs) = map (\<lambda>(r, v). put r v) (zip (filter sel rs) vs)"
  using assms(2)
proof (induction rs arbitrary: vs)
  case Nil
  then show ?case by simp
next
  case (Cons r rs)
  then show ?case using assms(1) by (cases vs) auto
qed

lemma map_loc_assign_other:
  assumes "\<And>r v. g (put r v) = g r"
  shows "map g (loc_assign sel put rs vs) = map g rs"
  by (induction rs arbitrary: vs) (auto simp: assms split: list.splits)

lemma filter_loc_assign_other:
  assumes "\<And>r v. q (put r v) = q r" "\<And>r. q r \<Longrightarrow> \<not> sel r"
  shows "filter q (loc_assign sel put rs vs) = filter q rs"
  using assms by (induction rs arbitrary: vs) (auto split: list.splits)


lemma map_snd_zip_put:
  "length vs = length rs \<Longrightarrow>
   map (\<lambda>r. f_weather r c) (map (\<lambda>(r, v). r\<lparr>f_weather := v\<rparr>) (zip rs vs)) = map (\<lambda>v. v c) vs"
  by (induction rs vs rule: list_induct2') auto

lemma parcel_column_fill_carry_same:
  "parcel_column p c (fill_carry p ft) = ffill (bfill (parcel_column p c ft))"
proof -
  let ?sel = "\<lambda>r. f_parcelle_id r = p"
  let ?pd = "filter ?sel ft"
  let ?filled = "map (\<lambda>k. (\<lambda>c. ffill (bfill (map (\<lambda>r. f_weather r c) ?pd)) ! k)) [0..<length ?pd]"
  have len: "length ?filled = length ?pd" by simp
  have "filter ?sel (loc_assign ?sel (\<lambda>r v. r\<lparr>f_weather := v\<rparr>) ft ?filled)
        = map (\<lambda>(r, v). r\<lparr>f_weather := v\<rparr>) (zip ?pd ?filled)"
    by (rule filter_loc_assign_same) (simp_all)
  then have "parcel_column p c (fill_carry p ft) = map (\<lambda>v. v c) ?filled"
    unfolding parcel_column_def fill_carry_def Let_def
    using map_snd_zip_put [OF len, of c] by simp
  also have "\<dots> = map (\<lambda>k. ffill (bfill (map (\<lambda>r. f_weather r c) ?pd)) ! k) [0..<length ?pd]"
    by simp
  also have "\<dots> = ffill (bfill (map (\<lambda>r. f_weather r c) ?pd))"
    by (rule map_nth [of "ffill (bfill (map (\<lambda>r. f_weather r c) ?pd))", simplified])
  finally show ?thesis by (simp add: parcel_column_def)
qed

lemma parcel_column_fill_carry_other:
  "p \<noteq> q \<Longrightarrow> parcel_column p c (fill_carry q ft) = parcel_column p c ft"
  unfolding parcel_column_def fill_carry_def Let_def
  by (subst filter_loc_assign_other) auto

lemma parcel_column_fold_fill_carry:
  "distinct qs \<Longrightarrow>
   parcel_column p c (fold fill_carry qs ft) =
     (if p \<in> set qs then ffill (bfill (parcel_column p c ft)) else parcel_column p c ft)"
proof (induction qs arbitrary: ft)
  case Nil
  then show ?case by simp
next
  case (Cons q qs)
  show ?case
  proof (cases "p = q")
    case True
    with Cons show ?thesis by (simp add: parcel_column_fill_carry_same)
  next
    case False
    with Cons show ?thesis by (simp add: parcel_column_fill_carry_other)
  qed
qed

lemma distinct_unique [simp]: "distinct (unique xs)"
  by (simp add: unique_def)

lemma set_unique [simp]: "set (unique xs) = set xs"
  by (simp add: unique_def)

lemma keys_fill_interpolate:
  "map (\<lambda>r. (f_parcelle_id r, f_weather r)) (fill_interpolate q ft)
     = map (\<lambda>r. (f_parcelle_id r, f_weather r)) ft"
  unfolding fill_interpolate_def Let_def by (rule map_loc_assign_other) simp

lemma keys_fold_fill_interpolate:
  "map (\<lambda>r. (f_parcelle_id r, f_weather r)) (fold fill_interpolate qs ft)
     = map (\<lambda>r. (f_parcelle_id r, f_weather r)) ft"
  by (induction qs arbitrary: ft) (simp_all add: keys_fill_interpolate)

lemma keys_fillna:
  "map (\<lambda>r. (f_parcelle_id r, f_weather r)) (map fillna_rendement_final ft)
     = map (\<lambda>r. (f_parcelle_id r, f_weather r)) ft"
  by (induction ft) (auto simp: fillna_rendement_final_def split: option.splits)

lemma parcel_column_keys:
  "parcel_column p c ft =
     map (\<lambda>k. snd k c) (filter (\<lambda>k. fst k = p) (map (\<lambda>r. (f_parcelle_id r, f_weather r)) ft))"
  by (induction ft) (auto simp: parcel_column_def)

lemma parcel_column_gap_fill:
  "parcel_column p c (gap_fill ft) = ffill (bfill (parcel_column p c ft))"
proof -
  let ?f1 = "fold fill_carry (unique (map f_parcelle_id ft)) ft"
  have "parcel_column p c (gap_fill ft) = parcel_column p c ?f1"
    unfolding gap_fill_def Let_def
    by (simp only: parcel_column_keys keys_fillna keys_fold_fill_interpolate)
  also have "\<dots> = (if p \<in> set (map f_parcelle_id ft)
                    then ffill (bfill (parcel_column p c ft)) else parcel_column p c ft)"
    by (simp add: parcel_column_fold_fill_carry)
  also have "\<dots> = ffill (bfill (parcel_column p c ft))"
  proof (cases "p \<in> set (map f_parcelle_id ft)")
    case True
    then show ?thesis by simp
  next
    case False
    then have "filter (\<lambda>r. f_parcelle_id r = p) ft = []"
      by (auto simp: filter_empty_conv)
    then show ?thesis by (simp add: parcel_column_def ffill_def)
  qed
  finally show ?thesis .
qed

lemma bfill_nulls: "bfill (replicate n None) = replicate n None"
proof (induction n)
  case 0
  then show ?case by simp
next
  case (Suc n)
  then show ?case by (cases n) simp_all
qed

lemma ffill_from_nulls: "ffill_from prev (replicate n None) = replicate n prev"
  by (induction n) auto

lemma fill_pattern:
  "ffill (bfill ([None, None, Some a, None, None, Some b, None, None, None, Some c] @ replicate n None))
     = replicate 3 (Some a) @ replicate 3 (Some b) @ replicate 4 (Some c) @ replicate n (Some c)"
  by (simp add: ffill_def bfill_nulls ffill_from_nulls numeral_3_eq_3 eval_nat_numeral)


lemma valid_positions:
  assumes "filter (\<lambda>i. xs ! i \<noteq> None) [0..<length xs] = [2, 5, 9]" "i < length xs"
  shows "(xs ! i \<noteq> None) = (i = 2 \<or> i = 5 \<or> i = 9)"
proof -
  have "set (filter (\<lambda>i. xs ! i \<noteq> None) [0..<length xs]) = {2, 5, 9}"
    using assms(1) by simp
  then have "{k. k < length xs \<and> xs ! k \<noteq> None} = {2, 5, 9}"
    by auto
  then have "(i < length xs \<and> xs ! i \<noteq> None) = (i \<in> {2, 5, 9})"
    by blast
  with assms(2) show ?thesis by simp
qed

lemma column_shape:
  fixes xs :: "'a option list"
  assumes pos: "filter (\<lambda>i. xs ! i \<noteq> None) [0..<length xs] = [2, 5, 9]"
    and len: "10 \<le> length xs"
  shows "xs = [None, None, xs ! 2, None, None, xs ! 5, None, None, None, xs ! 9]
              @ replicate (length xs - 10) None"
    (is "xs = ?ys")
proof (rule nth_equalityI)
  show "length xs = length ?ys" using len by simp
next
  fix i assume i: "i < length xs"
  note v = valid_positions [OF pos]
  show "xs ! i = ?ys ! i"
  proof (cases "i < 10")
    case True
    then have "i \<in> set [0..<10]" by simp
    then have "i \<in> {0, 1, 2, 3, 4, 5, 6, 7, 8, 9}"
      by (simp add: upt_rec [of _ "numeral n" for n] upt_rec [of _ "Suc n" for n] eval_nat_numeral)
    then show ?thesis
      using v [OF i] by (auto simp: eval_nat_numeral)
  next
    case False
    then have "xs ! i = None" using v [OF i] by auto
    moreover have "i - 10 < length xs - 10" using False i by simp
    then have "replicate (length xs - 10) (None :: 'a option) ! (i - 10) = None"
      by (rule nth_replicate)
    ultimately show ?thesis using False
      by (simp add: nth_append eval_nat_numeral)
  qed
qed

text \<open>
  Claim C3, as the code has it: backward fill runs first, so a gap takes the NEXT
  valid value. For every parcel whose slice of a carry-fill column has at least ten
  rows and valid values exactly at the positions 2, 5 and 9, the gap filler gives
  the positions 0 to 2 the value at 2, the positions 3 to 5 the value at 5, and the
  positions 6 to 9 and every position beyond 9 the value at 9.
\<close>

theorem gap_filler_carry_fill:
  assumes "xs = parcel_column p c features"
    and "filter (\<lambda>i. xs ! i \<noteq> None) [0..<length xs] = [2, 5, 9]"
    and "10 \<le> length xs"
  shows "parcel_column p c (gap_fill features) =
           replicate 3 (xs ! 2) @ replicate 3 (xs ! 5) @ replicate (length xs - 6) (xs ! 9)"
proof -
  have v: "xs ! 2 \<noteq> None" "xs ! 5 \<noteq> None" "xs ! 9 \<noteq> None"
    using valid_positions [OF assms(2)] assms(3) by simp_all
  then obtain a b d where abd: "xs ! 2 = Some a" "xs ! 5 = Some b" "xs ! 9 = Some d"
    by auto
  have shape: "xs = [None, None, Some a, None, None, Some b, None, None, None, Some d]
                  @ replicate (length xs - 10) None"
    using column_shape [OF assms(2,3)] abd by simp
  have "parcel_column p c (gap_fill features) = ffill (bfill xs)"
    by (simp add: parcel_column_gap_fill assms(1))
  also have "\<dots> = replicate 3 (Some a) @ replicate 3 (Some b) @ replicate 4 (Some d)
                    @ replicate (length xs - 10) (Some d)"
    by (subst shape) (rule fill_pattern)
  also have "\<dots> = replicate 3 (xs ! 2) @ replicate 3 (xs ! 5) @ replicate (length xs - 6) (xs ! 9)"
    using assms(3) abd by (simp add: replicate_add [symmetric] del: replicate_add)
  finally show ?thesis .
qed

lemma gap_example_column:
  "parcel_column ''P1'' temperature gap_example =
     [None, None, Some 10, None, None, Some 20, None, None, None, Some 30]"
  by (simp add: parcel_column_def gap_example_def carry_row_def)

text \<open>The theorem of C3 at the example table.\<close>

theorem gap_filler_carry_fill_witness:
  "parcel_column ''P1'' temperature (gap_fill gap_example) =
     [Some 10, Some 10, Some 10, Some 20, Some 20, Some 20, Some 30, Some 30, Some 30, Some 30]"
  using gap_filler_carry_fill [of "parcel_column ''P1'' temperature gap_example" "''P1''" temperature gap_example]
  by (simp add: gap_example_column upt_rec [of _ "numeral n" for n] numeral_3_eq_3 eval_nat_numeral)

text \<open>
  Claim C3 as stated (the positions 3 and 4 take the value at 2, the positions 6 to 8
  the value at 5) fails on the example table: position 3 takes the value at 5 and
  position 7 the value at 9.
\<close>

theorem gap_filler_forward_precedence_counterexample:
  "parcel_column ''P1'' temperature gap_example ! 2 = Some 10 \<and>
   parcel_column ''P1'' temperature gap_example ! 5 = Some 20 \<and>
   parcel_column ''P1'' temperature (gap_fill gap_example) ! 3 = Some 20 \<and>
   parcel_column ''P1'' temperature (gap_fill gap_example) ! 3
     \<noteq> parcel_column ''P1'' temperature gap_example ! 2 \<and>
   parcel_column ''P1'' temperature (gap_fill gap_example) ! 7 = Some 30 \<and>
   parcel_column ''P1'' temperature (gap_fill gap_example) ! 7
     \<noteq> parcel_column ''P1'' temperature gap_example ! 5"
  by (simp add: parcel_column_gap_fill gap_example_column ffill_def)

subsection \<open>The risk scorer: validation\<close>

lemmas risk_eval = calculate_risk_metrics_def soil_manager_def load_data_def has_null_inputs_def risk_data_def stress_row_def soil_has_nulls_def soil_entry_def stress_metrics_def group_keys_def merge_left_def group_of_def mean_opt_def std_opt_def add_risk_score_def risk_score_of_def Let_def power2_eq_square
  risk_soil_def risk_soil_unnamed_def risk_soil_twice_def soil_lacks_retention_def soil_lacks_parcelle_id_def parcel_without_soil_def

lemma set_merge_left:
  "set (merge_left on ls rs) =
     {(l, None) | l. l \<in> set ls \<and> filter (on l) rs = []} \<union>
     {(l, Some r) | l r. l \<in> set ls \<and> r \<in> set rs \<and> on l r}"
  unfolding merge_left_def
proof -
  have one: "set (case filter (on l) rs of [] \<Rightarrow> [(l, None)] | m # ms \<Rightarrow> map (\<lambda>r. (l, Some r)) (m # ms))
        = {(l, None) | x. x = l \<and> filter (on l) rs = []} \<union> {(l, Some r) | r. r \<in> set rs \<and> on l r}" for l
  proof (cases "filter (on l) rs")
    case Nil
    then show ?thesis by (auto simp: filter_empty_conv)
  next
    case (Cons m ms)
    have "set (map (\<lambda>r. (l, Some r)) (filter (on l) rs)) = {(l, Some r) | r. r \<in> set rs \<and> on l r}"
      by auto
    with Cons show ?thesis by simp
  qed
  show "set (concat (map (\<lambda>l. case filter (on l) rs of [] \<Rightarrow> [(l, None)]
                                  | m # ms \<Rightarrow> map (\<lambda>r. (l, Some r)) (m # ms)) ls)) =
     {(l, None) | l. l \<in> set ls \<and> filter (on l) rs = []} \<union>
     {(l, Some r) | l r. l \<in> set ls \<and> r \<in> set rs \<and> on l r}"
    unfolding set_concat set_map image_image one by blast
qed

lemma merge_left_single:
  assumes "\<forall>l \<in> set ls. length (filter (on l) rs) \<le> 1"
  shows "merge_left on ls rs =
           map (\<lambda>l. (l, case filter (on l) rs of [] \<Rightarrow> None | r # _ \<Rightarrow> Some r)) ls"
  using assms
proof (induction ls)
  case Nil
  then show ?case by (simp add: merge_left_def)
next
  case (Cons l ls)
  then have "merge_left on ls rs =
           map (\<lambda>l. (l, case filter (on l) rs of [] \<Rightarrow> None | r # _ \<Rightarrow> Some r)) ls"
    by simp
  moreover have "length (filter (on l) rs) \<le> 1" using Cons.prems by simp
  ultimately show ?case
    by (cases "filter (on l) rs") (auto simp: merge_left_def)
qed

lemma length_merge_left_ge: "length ls \<le> length (merge_left on ls rs)"
  by (induction ls) (auto simp: merge_left_def split: list.splits)

lemma merge_left_Cons:
  "merge_left on (l # ls) rs =
     (case filter (on l) rs of [] \<Rightarrow> [(l, None)] | m # ms \<Rightarrow> map (\<lambda>r. (l, Some r)) (m # ms))
       @ merge_left on ls rs"
  by (simp add: merge_left_def)

lemma length_merge_left_eq:
  assumes "length (merge_left on ls rs) = length ls"
  shows "\<forall>l \<in> set ls. length (filter (on l) rs) \<le> 1"
  using assms
proof (induction ls)
  case Nil
  then show ?case by simp
next
  case (Cons l ls)
  have ge: "length ls \<le> length (merge_left on ls rs)" by (rule length_merge_left_ge)
  have hd: "length (filter (on l) rs) \<le> 1 \<and> length (merge_left on ls rs) = length ls"
  proof (cases "filter (on l) rs")
    case Nil
    with Cons.prems show ?thesis by (simp add: merge_left_Cons)
  next
    case (Cons m ms)
    with Cons.prems have "Suc (length ms) + length (merge_left on ls rs) = Suc (length ls)"
      by (simp add: merge_left_Cons)
    with ge have "length ms = 0 \<and> length (merge_left on ls rs) = length ls" by arith
    with Cons show ?thesis by simp
  qed
  with Cons.IH show ?case by simp
qed

lemma filter_key_distinct:
  "distinct (map f xs) \<Longrightarrow> length (filter (\<lambda>x. f x = k) xs) \<le> 1"
  by (induction xs) (auto simp: filter_empty_conv image_iff)

lemma dropna_all_valid: "\<forall>x \<in> set xs. x \<noteq> None \<Longrightarrow> length (dropna xs) = length xs"
  by (induction xs rule: dropna.induct) auto

lemma set_group_keys [simp]: "set (group_keys data) = set (map f_parcelle_id data)"
  by (simp add: group_keys_def)

lemma distinct_group_keys [simp]: "distinct (group_keys data)"
  by (simp add: group_keys_def)

lemma no_soil_record:
  "(filter (\<lambda>r. s_parcelle_id r = Some p) soil = []) = (Some p \<notin> set (map s_parcelle_id soil))"
  by (induction soil) auto

lemma metrics_lack_retention:
  assumes "\<not> soil_has_nulls soil"
  shows "list_ex (\<lambda>r. capacite_retention_eau r = None) (stress_metrics soil data)
           = parcel_without_soil soil data"
proof -
  have valid: "s_capacite_retention_eau r \<noteq> None" if "r \<in> set soil" for r
    using assms that by (auto simp: soil_has_nulls_def list_ex_iff)
  have "list_ex (\<lambda>r. capacite_retention_eau r = None) (stress_metrics soil data)
          = (\<exists>x \<in> set (merge_left (\<lambda>p r. s_parcelle_id r = Some p) (group_keys data) soil).
               (case snd x of None \<Rightarrow> None | Some r \<Rightarrow> s_capacite_retention_eau r) = None)"
    by (auto simp: stress_metrics_def list_ex_iff split_beta)
  also have "\<dots> = (\<exists>p \<in> set (group_keys data). filter (\<lambda>r. s_parcelle_id r = Some p) soil = [])"
  proof
    assume "\<exists>x \<in> set (merge_left (\<lambda>p r. s_parcelle_id r = Some p) (group_keys data) soil).
               (case snd x of None \<Rightarrow> None | Some r \<Rightarrow> s_capacite_retention_eau r) = None"
    then obtain l so where x: "(l, so) \<in> set (merge_left (\<lambda>p r. s_parcelle_id r = Some p) (group_keys data) soil)"
      and nul: "(case so of None \<Rightarrow> None | Some r \<Rightarrow> s_capacite_retention_eau r) = None"
      by auto
    show "\<exists>p \<in> set (group_keys data). filter (\<lambda>r. s_parcelle_id r = Some p) soil = []"
    proof (cases so)
      case None
      with x show ?thesis unfolding set_merge_left by blast
    next
      case (Some r)
      with x have "r \<in> set soil" unfolding set_merge_left by blast
      then have "s_capacite_retention_eau r \<noteq> None" by (rule valid)
      with nul Some have False by simp
      then show ?thesis ..
    qed
  next
    assume "\<exists>p \<in> set (group_keys data). filter (\<lambda>r. s_parcelle_id r = Some p) soil = []"
    then obtain p where "p \<in> set (group_keys data)" "filter (\<lambda>r. s_parcelle_id r = Some p) soil = []"
      by blast
    then have "(p, None) \<in> set (merge_left (\<lambda>p r. s_parcelle_id r = Some p) (group_keys data) soil)"
      unfolding set_merge_left by blast
    then show "\<exists>x \<in> set (merge_left (\<lambda>p r. s_parcelle_id r = Some p) (group_keys data) soil).
               (case snd x of None \<Rightarrow> None | Some r \<Rightarrow> s_capacite_retention_eau r) = None"
      by force
  qed
  also have "\<dots> = (\<exists>p \<in> set (map f_parcelle_id data). Some p \<notin> set (map s_parcelle_id soil))"
    by (simp only: no_soil_record set_group_keys)
  also have "\<dots> = parcel_without_soil soil data"
    by (auto simp: parcel_without_soil_def list_ex_iff)
  finally show ?thesis .
qed

lemma risk_metrics_raises_iff:
  "(\<exists>e. calculate_risk_metrics s data = Inl e) =
     (has_null_inputs data \<or> soil_has_nulls (soil_data s) \<or> parcel_without_soil (soil_data s) data)"
proof (cases "soil_has_nulls (soil_data s)")
  case True
  then show ?thesis by (simp add: calculate_risk_metrics_def)
next
  case False
  then show ?thesis
    using metrics_lack_retention [OF False, of data]
    by (simp add: calculate_risk_metrics_def Let_def)
qed

lemma parcels_of_stress_metrics:
  assumes "distinct (map s_parcelle_id soil)"
  shows "map r_parcelle_id (stress_metrics soil data) = group_keys data"
proof -
  have "\<forall>p \<in> set (group_keys data). length (filter (\<lambda>r. s_parcelle_id r = Some p) soil) \<le> 1"
    using filter_key_distinct [OF assms] by blast
  then show ?thesis
    unfolding stress_metrics_def
    by (subst merge_left_single) (simp_all add: comp_def)
qed

lemma parcel_of_add_risk_score [simp]: "r_parcelle_id (add_risk_score r) = r_parcelle_id r"
  by (simp add: add_risk_score_def)

text \<open>
  Claim C5, as the code has it. \<^verbatim>\<open>calculate_risk_metrics\<close> raises if and only if some
  \<^verbatim>\<open>stress_hydrique\<close> or \<^verbatim>\<open>temperature\<close> value of its input is null, or some soil
  record lacks its \<^verbatim>\<open>parcelle_id\<close> or its \<^verbatim>\<open>capacite_retention_eau\<close>, or a parcel of
  the input has no soil record. When none of these holds it succeeds, and when the
  soil table has at most one record for a \<^verbatim>\<open>parcelle_id\<close> the result has exactly one
  row for each distinct \<^verbatim>\<open>parcelle_id\<close> of the input.
\<close>

theorem risk_metrics_validation:
  "((\<exists>e. calculate_risk_metrics s data = Inl e) =
      (has_null_inputs data \<or> soil_lacks_parcelle_id (soil_data s) \<or>
       soil_lacks_retention (soil_data s) \<or> parcel_without_soil (soil_data s) data)) \<and>
   (\<not> has_null_inputs data \<and> \<not> soil_lacks_parcelle_id (soil_data s) \<and>
    \<not> soil_lacks_retention (soil_data s) \<and> \<not> parcel_without_soil (soil_data s) data \<and>
    distinct (map s_parcelle_id (soil_data s)) \<longrightarrow>
      (\<exists>result. calculate_risk_metrics s data = Inr result \<and>
         distinct (map r_parcelle_id result) \<and>
         set (map r_parcelle_id result) = set (map f_parcelle_id data)))"
proof -
  have nulls: "soil_has_nulls (soil_data s) =
                 (soil_lacks_parcelle_id (soil_data s) \<or> soil_lacks_retention (soil_data s))"
    by (auto simp: soil_has_nulls_def soil_lacks_parcelle_id_def soil_lacks_retention_def list_ex_iff)
  have raises: "(\<exists>e. calculate_risk_metrics s data = Inl e) =
      (has_null_inputs data \<or> soil_lacks_parcelle_id (soil_data s) \<or>
       soil_lacks_retention (soil_data s) \<or> parcel_without_soil (soil_data s) data)"
    by (simp add: risk_metrics_raises_iff nulls)
  have rows: "\<exists>result. calculate_risk_metrics s data = Inr result \<and>
         distinct (map r_parcelle_id result) \<and>
         set (map r_parcelle_id result) = set (map f_parcelle_id data)"
    if ok: "\<not> has_null_inputs data" "\<not> soil_has_nulls (soil_data s)"
           "\<not> parcel_without_soil (soil_data s) data"
      and one: "distinct (map s_parcelle_id (soil_data s))"
  proof -
    have "calculate_risk_metrics s data = Inr (map add_risk_score (stress_metrics (soil_data s) data))"
      using ok metrics_lack_retention [OF ok(2), of data]
      by (simp add: calculate_risk_metrics_def Let_def)
    moreover have eq: "map r_parcelle_id (map add_risk_score (stress_metrics (soil_data s) data))
                     = group_keys data"
      using parcels_of_stress_metrics [OF one, of data] by (simp add: comp_def)
    moreover have "distinct (map r_parcelle_id (map add_risk_score (stress_metrics (soil_data s) data)))"
      by (simp only: eq distinct_group_keys)
    moreover have "set (map r_parcelle_id (map add_risk_score (stress_metrics (soil_data s) data)))
                     = set (map f_parcelle_id data)"
      by (simp only: eq set_group_keys)
    ultimately show ?thesis by blast
  qed
  show ?thesis using raises rows nulls by blast
qed

text \<open>
  The theorem of C5 at an input that passes the validation (two parcels, one soil
  record each) and at one that does not (a soil record without \<^verbatim>\<open>parcelle_id\<close>).
\<close>

theorem risk_metrics_validation_witness:
  "\<not> has_null_inputs risk_data \<and> \<not> soil_lacks_parcelle_id risk_soil \<and>
   \<not> soil_lacks_retention risk_soil \<and> \<not> parcel_without_soil risk_soil risk_data \<and>
   distinct (map s_parcelle_id risk_soil) \<and>
   (\<exists>result. calculate_risk_metrics (soil_manager risk_soil) risk_data = Inr result \<and>
      distinct (map r_parcelle_id result) \<and>
      set (map r_parcelle_id result) = set (map f_parcelle_id risk_data)) \<and>
   soil_lacks_parcelle_id risk_soil_unnamed \<and>
   (\<exists>e. calculate_risk_metrics (soil_manager risk_soil_unnamed) risk_data = Inl e)"
proof -
  have s: "soil_data (soil_manager risk_soil) = risk_soil"
    "soil_data (soil_manager risk_soil_unnamed) = risk_soil_unnamed"
    by (simp_all add: soil_manager_def load_data_def)
  have h: "\<not> has_null_inputs risk_data" "\<not> soil_lacks_parcelle_id risk_soil"
    "\<not> soil_lacks_retention risk_soil" "\<not> parcel_without_soil risk_soil risk_data"
    "distinct (map s_parcelle_id risk_soil)" "soil_lacks_parcelle_id risk_soil_unnamed"
    by (simp_all add: has_null_inputs_def soil_lacks_parcelle_id_def soil_lacks_retention_def
        parcel_without_soil_def risk_data_def risk_soil_def risk_soil_unnamed_def
        stress_row_def soil_entry_def)
  show ?thesis
    using risk_metrics_validation [of "soil_manager risk_soil" risk_data]
      risk_metrics_validation [of "soil_manager risk_soil_unnamed" risk_data] h
    by (simp only: s) blast
qed

text \<open>
  Claim C5 as stated fails twice. With a soil record that has a retention capacity
  but no \<^verbatim>\<open>parcelle_id\<close> the function raises although no value the claim lists is
  null and every parcel has its soil record. With two soil records for parcel P1 and
  no null anywhere the function returns two rows for P1.
\<close>

theorem risk_metrics_validation_counterexample:
  "calculate_risk_metrics (soil_manager risk_soil_unnamed) risk_data = Inl MissingSoilValues \<and>
   \<not> has_null_inputs risk_data \<and> \<not> soil_lacks_retention risk_soil_unnamed \<and>
   \<not> parcel_without_soil risk_soil_unnamed risk_data \<and>
   \<not> has_null_inputs risk_data \<and> \<not> soil_lacks_retention risk_soil_twice \<and>
   \<not> parcel_without_soil risk_soil_twice risk_data \<and>
   map_sum id (map r_parcelle_id) (calculate_risk_metrics (soil_manager risk_soil_twice) risk_data)
     = Inr [''P1'', ''P1'', ''P2'']"
  by (simp add: risk_eval)

subsection \<open>The risk scorer: scores\<close>

lemma stress_metrics_rows:
  "stress_metrics soil data =
     map (metrics_row data) (merge_left (\<lambda>p r. s_parcelle_id r = Some p) (group_keys data) soil)"
  by (simp add: stress_metrics_def metrics_row_def case_prod_beta)

lemma risk_row_fields:
  assumes "r \<in> set (map add_risk_score (stress_metrics soil data))"
  shows "r_parcelle_id r \<in> set (map f_parcelle_id data) \<and>
         mean_stress r = mean_opt (map f_stress_hydrique (group_of data (r_parcelle_id r))) \<and>
         stress_variability r = std_opt (map f_stress_hydrique (group_of data (r_parcelle_id r))) \<and>
         mean_temperature r =
           mean_opt (map (\<lambda>x. f_weather x temperature) (group_of data (r_parcelle_id r))) \<and>
         risk_score r =
           risk_score_of (mean_stress r) (stress_variability r)
             (capacite_retention_eau r) (mean_temperature r)"
proof -
  let ?m = "merge_left (\<lambda>p r. s_parcelle_id r = Some p) (group_keys data) soil"
  from assms have "r \<in> (\<lambda>x. add_risk_score (metrics_row data x)) ` set ?m"
    by (simp only: stress_metrics_rows set_map image_image)
  then obtain x where x: "x \<in> set ?m" and r: "r = add_risk_score (metrics_row data x)"
    by (rule imageE)
  obtain q so where qso: "x = (q, so)" by (cases x)
  from x qso have "q \<in> set (group_keys data)" unfolding set_merge_left by blast
  then have "q \<in> set (map f_parcelle_id data)" by simp
  then show ?thesis by (simp add: r qso add_risk_score_def metrics_row_def)
qed

lemma row_for_every_parcel:
  assumes "p \<in> set (map f_parcelle_id data)"
  shows "\<exists>r \<in> set (map add_risk_score (stress_metrics soil data)). r_parcelle_id r = p"
proof -
  let ?on = "\<lambda>p r. s_parcelle_id r = Some p"
  let ?m = "merge_left ?on (group_keys data) soil"
  have k: "p \<in> set (group_keys data)" using assms by simp
  have "\<exists>so. (p, so) \<in> set ?m"
  proof (cases "filter (?on p) soil")
    case Nil
    with k have "(p, None) \<in> set ?m"
      unfolding set_merge_left by blast
    then show ?thesis ..
  next
    case (Cons m ms)
    then have "m \<in> set (filter (?on p) soil)" by simp
    then have "m \<in> set soil" "?on p m" by simp_all
    with k have "(p, Some m) \<in> set ?m"
      unfolding set_merge_left by blast
    then show ?thesis ..
  qed
  then obtain so where mem: "(p, so) \<in> set ?m" ..
  then have "add_risk_score (metrics_row data (p, so))
               \<in> set (map add_risk_score (stress_metrics soil data))"
    by (simp only: stress_metrics_rows set_map image_image) (rule imageI)
  moreover have "r_parcelle_id (add_risk_score (metrics_row data (p, so))) = p"
    by (simp add: add_risk_score_def metrics_row_def)
  ultimately show ?thesis ..
qed

lemma stress_values_valid:
  assumes "\<not> has_null_inputs data"
  shows "length (dropna (map f_stress_hydrique (group_of data p))) = length (group_of data p)"
    and "length (dropna (map (\<lambda>x. f_weather x temperature) (group_of data p))) = length (group_of data p)"
proof -
  have "\<forall>x \<in> set (group_of data p). f_stress_hydrique x \<noteq> None \<and> f_weather x temperature \<noteq> None"
    using assms by (auto simp: has_null_inputs_def list_ex_iff group_of_def)
  then show "length (dropna (map f_stress_hydrique (group_of data p))) = length (group_of data p)"
    and "length (dropna (map (\<lambda>x. f_weather x temperature) (group_of data p))) = length (group_of data p)"
    using dropna_all_valid [of "map f_stress_hydrique (group_of data p)"]
      dropna_all_valid [of "map (\<lambda>x. f_weather x temperature) (group_of data p)"]
    by simp_all
qed

lemma std_opt_None: "(std_opt xs = None) = (length (dropna xs) < 2)"
  by (simp add: std_opt_def Let_def)

lemma mean_opt_None: "(mean_opt xs = None) = (length (dropna xs) = 0)"
  by (simp add: mean_opt_def Let_def)

lemma risk_score_of_None:
  "(risk_score_of ms sv cr mt = None) = (ms = None \<or> sv = None \<or> cr = None \<or> mt = None)"
  by (simp add: risk_score_of_def split: option.splits)

lemma group_nonempty: "p \<in> set (map f_parcelle_id data) \<Longrightarrow> 0 < length (group_of data p)"
  by (induction data) (auto simp: group_of_def)

text \<open>
  Claim C10. When no \<^verbatim>\<open>stress_hydrique\<close> or \<^verbatim>\<open>temperature\<close> value is null and the soil
  retention is present for all parcels, \<^verbatim>\<open>calculate_risk_metrics\<close> does not raise on a
  table in which parcel \<open>p\<close> has exactly one row: it returns a row for \<open>p\<close>, every row
  of \<open>p\<close> has a null \<^verbatim>\<open>stress_variability\<close> and a null \<^verbatim>\<open>risk_score\<close>, and the row of
  a parcel with two or more rows has a number for both.
\<close>

theorem single_row_parcel_scores_null:
  assumes "\<not> has_null_inputs data" and "\<not> soil_has_nulls (soil_data s)"
    and "\<not> parcel_without_soil (soil_data s) data"
    and "length (group_of data p) = 1"
  shows "\<exists>result. calculate_risk_metrics s data = Inr result \<and>
           (\<exists>r \<in> set result. r_parcelle_id r = p) \<and>
           (\<forall>r \<in> set result. r_parcelle_id r = p \<longrightarrow>
              stress_variability r = None \<and> risk_score r = None) \<and>
           (\<forall>r \<in> set result. 2 \<le> length (group_of data (r_parcelle_id r)) \<longrightarrow>
              stress_variability r \<noteq> None \<and> risk_score r \<noteq> None)"
proof -
  let ?result = "map add_risk_score (stress_metrics (soil_data s) data)"
  have no_gap: "\<not> list_ex (\<lambda>r. capacite_retention_eau r = None) (stress_metrics (soil_data s) data)"
    using metrics_lack_retention [OF assms(2), of data] assms(3) by simp
  have res: "calculate_risk_metrics s data = Inr ?result"
    using assms(1,2) no_gap by (simp add: calculate_risk_metrics_def Let_def)
  have cap: "capacite_retention_eau r \<noteq> None" if "r \<in> set ?result" for r
    using that no_gap by (auto simp: list_ex_iff add_risk_score_def)
  have "group_of data p \<noteq> []" using assms(4) by auto
  then obtain x where "x \<in> set (group_of data p)" by (cases "group_of data p") auto
  then have "x \<in> set data" "f_parcelle_id x = p" by (simp_all add: group_of_def)
  then have "p \<in> set (map f_parcelle_id data)" by auto
  then have ex: "\<exists>r \<in> set ?result. r_parcelle_id r = p"
    by (rule row_for_every_parcel)
  have single: "stress_variability r = None \<and> risk_score r = None"
    if "r \<in> set ?result" "r_parcelle_id r = p" for r
  proof -
    note f = risk_row_fields [OF that(1)]
    have "length (dropna (map f_stress_hydrique (group_of data p))) < 2"
      using assms(4) stress_values_valid(1) [OF assms(1), of p] by simp
    then have "std_opt (map f_stress_hydrique (group_of data p)) = None"
      by (simp only: std_opt_None)
    with f that(2) have "stress_variability r = None" by simp
    moreover have "risk_score r =
           risk_score_of (mean_stress r) (stress_variability r)
             (capacite_retention_eau r) (mean_temperature r)"
      using f by blast
    ultimately show ?thesis by (simp add: risk_score_of_None)
  qed
  have many: "stress_variability r \<noteq> None \<and> risk_score r \<noteq> None"
    if "r \<in> set ?result" "2 \<le> length (group_of data (r_parcelle_id r))" for r
  proof -
    note f = risk_row_fields [OF that(1)]
    note v = stress_values_valid [OF assms(1), of "r_parcelle_id r"]
    have "std_opt (map f_stress_hydrique (group_of data (r_parcelle_id r))) \<noteq> None"
      using v(1) that(2) by (simp add: std_opt_None)
    with f have sv: "stress_variability r \<noteq> None" by metis
    have "length (dropna (map f_stress_hydrique (group_of data (r_parcelle_id r)))) \<noteq> 0"
      using v(1) that(2) by linarith
    then have "mean_opt (map f_stress_hydrique (group_of data (r_parcelle_id r))) \<noteq> None"
      by (simp only: mean_opt_None not_False_eq_True)
    with f have ms: "mean_stress r \<noteq> None" by metis
    have "length (dropna (map (\<lambda>x. f_weather x temperature) (group_of data (r_parcelle_id r)))) \<noteq> 0"
      using v(2) that(2) by linarith
    then have "mean_opt (map (\<lambda>x. f_weather x temperature) (group_of data (r_parcelle_id r))) \<noteq> None"
      by (simp only: mean_opt_None not_False_eq_True)
    with f have mt: "mean_temperature r \<noteq> None" by metis
    have "risk_score_of (mean_stress r) (stress_variability r)
             (capacite_retention_eau r) (mean_temperature r) \<noteq> None"
      using sv ms mt cap [OF that(1)] by (simp add: risk_score_of_None)
    with f have "risk_score r \<noteq> None" by metis
    with sv show ?thesis ..
  qed
  show ?thesis
  proof (intro exI conjI ballI impI)
    show "calculate_risk_metrics s data = Inr ?result" by (rule res)
    show "\<exists>r \<in> set ?result. r_parcelle_id r = p" by (rule ex)
  next
    fix r assume "r \<in> set ?result" "r_parcelle_id r = p"
    then show "stress_variability r = None" "risk_score r = None"
      using single by simp_all
  next
    fix r assume "r \<in> set ?result" "2 \<le> length (group_of data (r_parcelle_id r))"
    then show "stress_variability r \<noteq> None" "risk_score r \<noteq> None"
      using many by simp_all
  qed
qed

lemma risk_metrics_result:
  assumes "calculate_risk_metrics s data = Inr result"
  shows "result = map add_risk_score (stress_metrics (soil_data s) data)"
  using assms by (simp add: calculate_risk_metrics_def Let_def split: if_splits)

text \<open>
  The theorem of C10 at a table in which parcel P1 has one row and parcel P2 three.
\<close>

theorem single_row_parcel_scores_null_witness:
  "\<not> has_null_inputs risk_data \<and> \<not> soil_has_nulls (soil_data (soil_manager risk_soil)) \<and>
   \<not> parcel_without_soil (soil_data (soil_manager risk_soil)) risk_data \<and>
   length (group_of risk_data ''P1'') = 1 \<and>
   (\<exists>result. calculate_risk_metrics (soil_manager risk_soil) risk_data = Inr result \<and>
      (\<exists>r \<in> set result. r_parcelle_id r = ''P1'') \<and>
      (\<forall>r \<in> set result. r_parcelle_id r = ''P1'' \<longrightarrow>
         stress_variability r = None \<and> risk_score r = None) \<and>
      (\<forall>r \<in> set result. 2 \<le> length (group_of risk_data (r_parcelle_id r)) \<longrightarrow>
         stress_variability r \<noteq> None \<and> risk_score r \<noteq> None))"
proof -
  have h: "\<not> has_null_inputs risk_data" "\<not> soil_has_nulls (soil_data (soil_manager risk_soil))"
    "\<not> parcel_without_soil (soil_data (soil_manager risk_soil)) risk_data"
    "length (group_of risk_data ''P1'') = 1"
    by (simp_all add: has_null_inputs_def soil_has_nulls_def parcel_without_soil_def
        soil_manager_def load_data_def risk_data_def risk_soil_def stress_row_def
        soil_entry_def group_of_def)
  from single_row_parcel_scores_null [OF h] h show ?thesis by blast
qed

subsection \<open>The risk scorer: the arithmetic of float64\<close>

lemma round_even_floor: "\<lfloor>r\<rfloor> \<le> round_even r" "round_even r \<le> \<lfloor>r\<rfloor> + 1"
  by (simp_all add: round_even_def Let_def)

lemma round_even_int [simp]: "round_even (of_int n) = n"
  by (simp add: round_even_def Let_def)

lemma round_even_mono:
  assumes "r \<le> s"
  shows "round_even r \<le> round_even s"
proof (cases "\<lfloor>r\<rfloor> = \<lfloor>s\<rfloor>")
  case True
  have "r - of_int \<lfloor>r\<rfloor> \<le> s - of_int \<lfloor>s\<rfloor>" using assms True by simp
  then show ?thesis
    using True by (auto simp: round_even_def Let_def)
next
  case False
  with assms have "\<lfloor>r\<rfloor> < \<lfloor>s\<rfloor>" using floor_mono [of r s] by linarith
  then have "round_even r \<le> \<lfloor>s\<rfloor>" using round_even_floor(2) [of r] by linarith
  then show ?thesis using round_even_floor(1) [of s] by linarith
qed

lemma floor_minus_nonint:
  assumes "r \<notin> \<int>"
  shows "\<lfloor>- r\<rfloor> = - \<lfloor>r\<rfloor> - 1" "0 < r - of_int \<lfloor>r\<rfloor>"
proof -
  have ne: "of_int \<lfloor>r\<rfloor> \<noteq> r" using assms by (metis Ints_of_int)
  then show "0 < r - of_int \<lfloor>r\<rfloor>" using of_int_floor_le [of r] by linarith
  then have "of_int (- \<lfloor>r\<rfloor> - 1) \<le> - r" "- r < of_int (- \<lfloor>r\<rfloor> - 1) + 1"
    using floor_correct [of r] by simp_all
  then show "\<lfloor>- r\<rfloor> = - \<lfloor>r\<rfloor> - 1" by (rule floor_unique)
qed

lemma round_even_minus: "round_even (- r) = - round_even r"
proof (cases "r \<in> \<int>")
  case True
  then obtain n where n: "r = of_int n" by (auto elim: Ints_cases)
  then have "round_even (- r) = round_even (of_int (- n))" by simp
  then show ?thesis using n by (simp only: round_even_int)
next
  case False
  note f = floor_minus_nonint [OF False]
  show ?thesis
    unfolding round_even_def Let_def f(1) using f(2) by (auto simp: field_simps)
qed

lemma binade:
  assumes "0 < x"
  shows "2 powr of_int \<lfloor>log 2 x\<rfloor> \<le> x" "x < 2 powr (of_int \<lfloor>log 2 x\<rfloor> + 1)"
proof -
  have "of_int \<lfloor>log 2 x\<rfloor> \<le> log 2 x" by simp
  then have "2 powr of_int \<lfloor>log 2 x\<rfloor> \<le> 2 powr log 2 x" by (simp only: powr_le_cancel_iff)
  then show "2 powr of_int \<lfloor>log 2 x\<rfloor> \<le> x" using assms by simp
  have "log 2 x < of_int \<lfloor>log 2 x\<rfloor> + 1" by linarith
  then have "2 powr log 2 x < 2 powr (of_int \<lfloor>log 2 x\<rfloor> + 1)" by (simp only: powr_less_cancel_iff)
  then show "x < 2 powr (of_int \<lfloor>log 2 x\<rfloor> + 1)" using assms by simp
qed


lemma two_powi: "(2::real) powi e = 2 powr of_int e"
  by (simp add: powr_real_of_int' power_int_def)

lemma two_powr_nat: "0 \<le> k \<Longrightarrow> (2::real) powr of_int k = 2 ^ nat k"
  by (simp add: powr_real_of_int' power_int_def)

lemma two_powr_neg: "0 \<le> k \<Longrightarrow> (2::real) powr of_int (- k) = 1 / 2 ^ nat k"
proof -
  assume k: "0 \<le> k"
  have "(2::real) powr of_int (- k) = inverse (2 powr of_int k)"
    by (simp only: of_int_minus powr_minus)
  then show ?thesis using k by (simp only: two_powr_nat inverse_eq_divide)
qed

lemma exponent_large:
  assumes "1 \<le> a"
  shows "bitlen \<lfloor>a\<rfloor> - 1 = \<lfloor>log 2 a\<rfloor>"
proof -
  have p: "0 < \<lfloor>a\<rfloor>" using assms by simp
  define k where "k = bitlen \<lfloor>a\<rfloor> - 1"
  have k: "0 \<le> k" using p by (simp add: k_def bitlen_alt_def)
  from bitlen_bounds [OF p] have b: "2 ^ nat k \<le> \<lfloor>a\<rfloor>" "\<lfloor>a\<rfloor> < 2 ^ nat (k + 1)"
    by (simp_all add: k_def)
  have "(2::real) ^ nat k \<le> a"
    using b(1) by (metis le_floor_iff of_int_numeral of_int_power)
  moreover have "a < (2::real) ^ nat (k + 1)"
    using b(2) by (metis floor_less_iff of_int_numeral of_int_power)
  moreover have "(2::real) powr (of_int k + 1) = 2 ^ nat (k + 1)"
    using two_powr_nat [of "k + 1"] k by simp
  ultimately have "2 powr of_int k \<le> a \<and> a < 2 powr (of_int k + 1)"
    using k by (simp only: two_powr_nat)
  then have "\<lfloor>log 2 a\<rfloor> = k"
    using assms by (subst floor_log_eq_powr_iff) simp_all
  then show ?thesis by (simp add: k_def)
qed

lemma exponent_small:
  assumes "0 < a" "a < 1"
  shows "- bitlen (\<lceil>1 / a\<rceil> - 1) = \<lfloor>log 2 a\<rfloor>"
proof -
  define m where "m = \<lceil>1 / a\<rceil>"
  have y: "1 < 1 / a" using assms by simp
  then have m2: "2 \<le> m" unfolding m_def by linarith
  then have p: "0 < m - 1" by simp
  define k where "k = bitlen (m - 1)"
  have k: "1 \<le> k" using p by (simp add: k_def bitlen_alt_def)
  from bitlen_bounds [OF p] have b: "2 ^ nat (k - 1) \<le> m - 1" "m - 1 < 2 ^ nat k"
    by (simp_all add: k_def)
  have "of_int (m - 1) < 1 / a" unfolding m_def by linarith
  moreover have "(2::real) ^ nat (k - 1) \<le> of_int (m - 1)"
    using b(1) by (metis of_int_le_iff of_int_numeral of_int_power)
  ultimately have lo: "(2::real) ^ nat (k - 1) < 1 / a" by linarith
  have "m \<le> 2 ^ nat k" using b(2) by simp
  then have "of_int m \<le> (2::real) ^ nat k"
    by (metis of_int_le_iff of_int_numeral of_int_power)
  moreover have "1 / a \<le> of_int m" unfolding m_def by linarith
  ultimately have hi: "1 / a \<le> (2::real) ^ nat k" by linarith
  have "1 / 2 ^ nat k \<le> a"
    using hi assms(1) by (simp add: field_simps)
  moreover have "a < 1 / 2 ^ nat (k - 1)"
    using lo assms(1) by (simp add: field_simps)
  moreover have "(2::real) powr of_int (- k) = 1 / 2 ^ nat k"
    using k by (intro two_powr_neg) simp
  moreover have "(2::real) powr (of_int (- k) + 1) = 1 / 2 ^ nat (k - 1)"
  proof -
    have "of_int (- k) + 1 = (of_int (- (k - 1)) :: real)" by simp
    moreover have "(2::real) powr of_int (- (k - 1)) = 1 / 2 ^ nat (k - 1)"
      using k by (intro two_powr_neg) simp
    ultimately show ?thesis by (simp only:)
  qed
  ultimately have "2 powr of_int (- k) \<le> a \<and> a < 2 powr (of_int (- k) + 1)"
    by (simp only:)
  then have "\<lfloor>log 2 a\<rfloor> = - k"
    using assms by (subst floor_log_eq_powr_iff) simp_all
  then show ?thesis by (simp add: k_def m_def)
qed

text \<open>
  The exponent is the integer part of the binary logarithm, bounded below, and the
  unit of the rounding is the corresponding power of two.
\<close>

lemma exponent_log:
  assumes "x \<noteq> 0"
  shows "exponent x = max \<lfloor>log 2 \<bar>x\<bar>\<rfloor> (- 1022)"
proof (cases "1 \<le> \<bar>x\<bar>")
  case True
  then have "0 \<le> log 2 \<bar>x\<bar>" by simp
  then have "0 \<le> \<lfloor>log 2 \<bar>x\<bar>\<rfloor>" by simp
  then have "max \<lfloor>log 2 \<bar>x\<bar>\<rfloor> (- 1022) = \<lfloor>log 2 \<bar>x\<bar>\<rfloor>" by linarith
  moreover have "exponent x = \<lfloor>log 2 \<bar>x\<bar>\<rfloor>"
    using True exponent_large [of "\<bar>x\<bar>"] by (simp add: exponent_def)
  ultimately show ?thesis by (simp only:)
next
  case False
  then show ?thesis using assms exponent_small [of "\<bar>x\<bar>"] by (simp add: exponent_def)
qed

lemma float64_log:
  "float64 x =
     (if x = 0 then 0
      else (let u = 2 powr (of_int (exponent x) - 52)
            in of_int (round_even (x / u)) * u))"
  by (simp add: float64_def Let_def two_powi)

lemma exponent_minus [simp]: "exponent (- x) = exponent x"
  by (simp add: exponent_def)

lemma exponent_mono:
  assumes "0 < x" "x \<le> y"
  shows "exponent x \<le> exponent y"
proof -
  have "\<lfloor>log 2 x\<rfloor> \<le> \<lfloor>log 2 y\<rfloor>"
    using assms by (intro floor_mono) simp
  then show ?thesis using assms by (simp add: exponent_log)
qed

lemma float64_pos_eq:
  assumes "0 < x"
  shows "float64 x =
           of_int (round_even (x / 2 powr (of_int (exponent x) - 52)))
             * 2 powr (of_int (exponent x) - 52)"
  using assms by (simp add: float64_log Let_def)

lemma float64_range:
  assumes "0 < x"
  shows "exponent x = \<lfloor>log 2 x\<rfloor> \<Longrightarrow> 2 powr of_int (exponent x) \<le> float64 x"
    and "float64 x \<le> 2 powr (of_int (exponent x) + 1)"
proof -
  define e :: real where "e = of_int (exponent x)"
  define u :: real where "u = 2 powr (e - 52)"
  have u: "0 < u" by (simp add: u_def)
  have lo: "2 powr e = 2 ^ 52 * u"
    by (simp add: u_def powr_diff)
  have hi: "2 powr (e + 1) = 2 ^ 53 * u"
    by (simp add: u_def powr_diff powr_add)
  have fx: "float64 x = of_int (round_even (x / u)) * u"
    using float64_pos_eq [OF assms] by (simp add: u_def e_def)
  have "\<lfloor>log 2 x\<rfloor> \<le> exponent x" using assms by (simp add: exponent_log)
  then have "(of_int \<lfloor>log 2 x\<rfloor> :: real) + 1 \<le> e + 1"
    unfolding e_def by (metis add_le_cancel_right of_int_le_iff)
  then have "(2::real) powr (of_int \<lfloor>log 2 x\<rfloor> + 1) \<le> 2 powr (e + 1)"
    by (simp only: powr_le_cancel_iff)
  then have "x < 2 ^ 53 * u"
    using binade(2) [OF assms] hi by linarith
  then have q: "x / u \<le> 2 ^ 53"
    using u by (simp add: field_simps)
  have "round_even (x / u) \<le> round_even (of_int (2 ^ 53))"
    by (rule round_even_mono) (use q in simp)
  then have b: "of_int (round_even (x / u)) \<le> (2 ^ 53 :: real)"
    by (simp only: round_even_int) (metis of_int_le_iff of_int_numeral of_int_power)
  show "float64 x \<le> 2 powr (of_int (exponent x) + 1)"
    using b u unfolding fx e_def [symmetric] hi by (simp only: mult_le_cancel_right_pos)
  show "2 powr of_int (exponent x) \<le> float64 x" if n: "exponent x = \<lfloor>log 2 x\<rfloor>"
  proof -
    have "2 ^ 52 * u \<le> x"
      using binade(1) [OF assms] lo n by (simp add: e_def)
    then have p: "2 ^ 52 \<le> x / u"
      using u by (simp add: field_simps)
    have "round_even (of_int (2 ^ 52)) \<le> round_even (x / u)"
      by (rule round_even_mono) (use p in simp)
    then have a: "(2 ^ 52 :: real) \<le> of_int (round_even (x / u))"
      by (simp only: round_even_int) (metis of_int_le_iff of_int_numeral of_int_power)
    show ?thesis
      using a u unfolding fx e_def [symmetric] lo by (simp only: mult_le_cancel_right_pos)
  qed
qed

lemma float64_mono_pos:
  assumes "0 < x" "x \<le> y"
  shows "float64 x \<le> float64 y"
proof -
  have y: "0 < y" using assms by linarith
  have le: "exponent x \<le> exponent y"
    using assms by (rule exponent_mono)
  show ?thesis
  proof (cases "exponent x = exponent y")
    case True
    define u :: real where "u = 2 powr (of_int (exponent y) - 52)"
    have u: "0 < u" by (simp add: u_def)
    have "x / u \<le> y / u" using assms(2) u by (simp add: divide_right_mono)
    then have "round_even (x / u) \<le> round_even (y / u)" by (rule round_even_mono)
    then have "of_int (round_even (x / u)) * u \<le> of_int (round_even (y / u)) * u"
      using u by simp
    then show ?thesis
      using float64_pos_eq [OF assms(1)] float64_pos_eq [OF y] True by (simp add: u_def)
  next
    case False
    with le have lt: "exponent x + 1 \<le> exponent y" by linarith
    have "- 1022 \<le> exponent x" using assms(1) by (simp add: exponent_log)
    with lt have "exponent y = \<lfloor>log 2 y\<rfloor>"
      using y by (simp add: exponent_log max_def split: if_splits)
    then have low: "2 powr of_int (exponent y) \<le> float64 y"
      by (rule float64_range(1) [OF y])
    from lt have "(of_int (exponent x) :: real) + 1 \<le> of_int (exponent y)"
      by (metis of_int_1 of_int_add of_int_le_iff)
    then have "(2::real) powr (of_int (exponent x) + 1) \<le> 2 powr of_int (exponent y)"
      by (simp only: powr_le_cancel_iff)
    then show ?thesis
      using float64_range(2) [OF assms(1)] low by linarith
  qed
qed

lemma float64_zero [simp]: "float64 0 = 0"
  by (simp add: float64_log)

lemma float64_minus: "float64 (- x) = - float64 x"
  by (simp add: float64_log Let_def round_even_minus)

lemma float64_nonneg:
  assumes "0 \<le> x"
  shows "0 \<le> float64 x"
proof (cases "x = 0")
  case True
  then show ?thesis by simp
next
  case False
  define u :: real where "u = 2 powr (of_int (exponent x) - 52)"
  have u: "0 < u" by (simp add: u_def)
  have "round_even (of_int 0) \<le> round_even (x / u)"
    by (rule round_even_mono) (use assms u in simp)
  then have "0 \<le> round_even (x / u)" by (simp only: round_even_int)
  then have "0 \<le> of_int (round_even (x / u)) * u" using u by simp
  then show ?thesis using False by (simp add: float64_log Let_def u_def)
qed

text \<open>Rounding is monotone, and so are the operations of float64.\<close>

lemma float64_mono:
  assumes "x \<le> y"
  shows "float64 x \<le> float64 y"
proof -
  consider "0 < x" | "x \<le> 0 \<and> y < 0" | "x \<le> 0 \<and> 0 \<le> y"
    using assms by linarith
  then show ?thesis
  proof cases
    case 1
    then show ?thesis using assms by (rule float64_mono_pos)
  next
    case 2
    then have "float64 (- y) \<le> float64 (- x)" using assms by (intro float64_mono_pos) simp_all
    then show ?thesis by (simp add: float64_minus)
  next
    case 3
    then have "0 \<le> float64 (- x)" by (intro float64_nonneg) simp
    then have "float64 x \<le> 0" by (simp add: float64_minus)
    moreover have "0 \<le> float64 y" using 3 by (intro float64_nonneg) simp
    ultimately show ?thesis by linarith
  qed
qed

text \<open>
  The value of \<open>float64\<close> at a number whose binary exponent is known; with it the
  simplifier computes the roundings of the examples.
\<close>

lemma float64_eval:
  assumes "2 powr of_int e \<le> \<bar>x\<bar>" "\<bar>x\<bar> < 2 powr (of_int e + 1)" "- 1022 \<le> e"
  shows "float64 x =
           of_int (round_even (x / 2 powr (of_int e - 52))) * 2 powr (of_int e - 52)"
proof -
  have "(0::real) < 2 powr of_int e" by simp
  then have pos: "0 < \<bar>x\<bar>"
    using assms(1) by linarith
  have "of_int e \<le> log 2 \<bar>x\<bar>"
    using assms(1) pos by (simp add: le_log_iff)
  moreover have "log 2 \<bar>x\<bar> < of_int e + 1"
    using assms(2) pos by (simp add: log_less_iff)
  ultimately have "\<lfloor>log 2 \<bar>x\<bar>\<rfloor> = e" by (intro floor_unique)
  moreover have nz: "x \<noteq> 0" using pos by simp
  ultimately have "exponent x = e" using assms(3) by (simp add: exponent_log)
  then show ?thesis using nz by (simp add: float64_log Let_def)
qed

lemma float64_at_up:
  assumes "2 ^ n \<le> \<bar>x\<bar>" "\<bar>x\<bar> < 2 * 2 ^ n" "n \<le> 52"
  shows "float64 x = of_int (round_even (x * 2 ^ (52 - n))) / 2 ^ (52 - n)"
proof -
  have a: "(2::real) powr of_int (int n) = 2 ^ n"
    by (simp add: powr_realpow)
  have b: "(2::real) powr (of_int (int n) + 1) = 2 * 2 ^ n"
    by (simp add: powr_add powr_realpow)
  have e: "(of_int (int n) :: real) - 52 = - real (52 - n)" using assms(3) by simp
  have c: "(2::real) powr (of_int (int n) - 52) = 1 / 2 ^ (52 - n)"
    unfolding e by (simp add: powr_minus powr_realpow divide_inverse)
  show ?thesis
    using float64_eval [of "int n" x] assms(1,2) unfolding a b c by simp
qed

lemma float64_at_down:
  assumes "1 \<le> \<bar>x\<bar> * 2 ^ n" "\<bar>x\<bar> * 2 ^ n < 2" "n \<le> 1022"
  shows "float64 x = of_int (round_even (x * 2 ^ (52 + n))) / 2 ^ (52 + n)"
proof -
  have a: "(2::real) powr of_int (- int n) = 1 / 2 ^ n"
    by (simp add: powr_minus powr_realpow field_simps)
  have "(2::real) powr (of_int (- int n) + 1) = 2 powr of_int (- int n) * 2 powr 1"
    by (rule powr_add)
  then have b: "(2::real) powr (of_int (- int n) + 1) = 2 / 2 ^ n"
    unfolding a by simp
  have e: "(of_int (- int n) :: real) - 52 = - real (52 + n)" by simp
  have "(2::real) powr (- real (52 + n)) = inverse (2 powr real (52 + n))"
    by (rule powr_minus)
  also have "\<dots> = inverse (2 ^ (52 + n))"
    by (subst powr_realpow) simp_all
  finally have c: "(2::real) powr (of_int (- int n) - 52) = 1 / 2 ^ (52 + n)"
    by (simp only: e inverse_eq_divide)
  have "1 / 2 ^ n \<le> \<bar>x\<bar>" "\<bar>x\<bar> < 2 / 2 ^ n"
    using assms(1,2) by (simp_all add: field_simps)
  then show ?thesis
    using float64_eval [of "- int n" x] assms(3) unfolding a b c by simp
qed

lemma float_add_mono: "a \<le> a' \<Longrightarrow> b \<le> b' \<Longrightarrow> float_add a b \<le> float_add a' b'"
  unfolding float_add_def by (rule float64_mono) simp

lemma float_sub_mono: "a \<le> a' \<Longrightarrow> b' \<le> b \<Longrightarrow> float_sub a b \<le> float_sub a' b'"
  unfolding float_sub_def by (rule float64_mono) simp

lemma float_mul_mono: "a \<le> a' \<Longrightarrow> 0 \<le> w \<Longrightarrow> float_mul a w \<le> float_mul a' w"
  unfolding float_mul_def by (rule float64_mono) (rule mult_right_mono)

lemma float_mul_commute: "float_mul a b = float_mul b a"
  by (simp add: float_mul_def mult.commute)

lemma weight_nonneg: "0 \<le> float64 0.4" "0 \<le> float64 0.2"
  by (rule float64_nonneg, simp)+

lemma risk_formula_mono_stress:
  assumes "ms \<le> ms'"
  shows "risk_formula ms sv cr mt \<le> risk_formula ms' sv cr mt"
  unfolding risk_formula_def
  by (intro float_add_mono float_mul_mono assms weight_nonneg order_refl)

lemma risk_formula_mono_retention:
  assumes "cr \<le> cr'"
  shows "risk_formula ms sv cr' mt \<le> risk_formula ms sv cr mt"
  unfolding risk_formula_def
  by (intro float_add_mono float_mul_mono float_sub_mono assms weight_nonneg order_refl)

lemma float64_weights:
  "float64 0.4 = 3602879701896397 / 9007199254740992"
  "float64 0.3 = 5404319552844595 / 18014398509481984"
  "float64 0.2 = 3602879701896397 / 18014398509481984"
  "float64 0.1 = 3602879701896397 / 36028797018963968"
proof -
  show "float64 0.4 = 3602879701896397 / 9007199254740992"
    using float64_at_down [where x = "0.4" and n = 2] by (simp add: round_even_def)
  show "float64 0.3 = 5404319552844595 / 18014398509481984"
    using float64_at_down [where x = "0.3" and n = 2] by (simp add: round_even_def)
  show "float64 0.2 = 3602879701896397 / 18014398509481984"
    using float64_at_down [where x = "0.2" and n = 3] by (simp add: round_even_def)
  show "float64 0.1 = 3602879701896397 / 36028797018963968"
    using float64_at_down [where x = "0.1" and n = 4] by (simp add: round_even_def)
qed

lemma risk_formula_example:
  "risk_formula 2 1 (5 / 8) 21 = 1843661097454797 / 562949953421312"
proof -
  have a: "float_mul 2 (3602879701896397 / 9007199254740992) = 3602879701896397 / 4503599627370496"
    using float64_at_down [where x = "2 * (3602879701896397 / 9007199254740992)" and n = 1]
    by (simp add: float_mul_def round_even_def)
  have b: "float_mul 1 (5404319552844595 / 18014398509481984) = 5404319552844595 / 18014398509481984"
    using float64_at_down [where x = "1 * (5404319552844595 / 18014398509481984)" and n = 2]
    by (simp add: float_mul_def round_even_def)
  have c: "float_add (3602879701896397 / 4503599627370496) (5404319552844595 / 18014398509481984) = 2476979795053773 / 2251799813685248"
    using float64_at_up [where x = "(3602879701896397 / 4503599627370496) + (5404319552844595 / 18014398509481984)" and n = 0]
    by (simp add: float_add_def round_even_def)
  have d: "float_sub 1 (5 / 8) = 3 / 8"
    using float64_at_down [where x = "1 - (5 / 8)" and n = 2]
    by (simp add: float_sub_def round_even_def)
  have e: "float_mul (3 / 8) (3602879701896397 / 18014398509481984) = 1351079888211149 / 18014398509481984"
    using float64_at_down [where x = "(3 / 8) * (3602879701896397 / 18014398509481984)" and n = 4]
    by (simp add: float_mul_def round_even_def)
  have f: "float_add (2476979795053773 / 2251799813685248) (1351079888211149 / 18014398509481984) = 5291729562160333 / 4503599627370496"
    using float64_at_up [where x = "(2476979795053773 / 2251799813685248) + (1351079888211149 / 18014398509481984)" and n = 0]
    by (simp add: float_add_def round_even_def)
  have g: "float_mul 21 (3602879701896397 / 36028797018963968) = 4728779608739021 / 2251799813685248"
    using float64_at_up [where x = "21 * (3602879701896397 / 36028797018963968)" and n = 1]
    by (simp add: float_mul_def round_even_def)
  have h: "float_add (5291729562160333 / 4503599627370496) (4728779608739021 / 2251799813685248) = 1843661097454797 / 562949953421312"
    using float64_at_up [where x = "(5291729562160333 / 4503599627370496) + (4728779608739021 / 2251799813685248)" and n = 1]
    by (simp add: float_add_def round_even_def)
  show ?thesis
    unfolding risk_formula_def float64_weights a b c d e f g h by (rule refl)
qed

lemma risk_formula_next_stress:
  "risk_formula (2 + 1 / 2 ^ 51) 1 (5 / 8) 21 = 1843661097454797 / 562949953421312"
proof -
  have a: "float_mul (2 + 1 / 2 ^ 51) (3602879701896397 / 9007199254740992) = 1801439850948199 / 2251799813685248"
    using float64_at_down [where x = "(2 + 1 / 2 ^ 51) * (3602879701896397 / 9007199254740992)" and n = 1]
    by (simp add: float_mul_def round_even_def)
  have b: "float_mul 1 (5404319552844595 / 18014398509481984) = 5404319552844595 / 18014398509481984"
    using float64_at_down [where x = "1 * (5404319552844595 / 18014398509481984)" and n = 2]
    by (simp add: float_mul_def round_even_def)
  have c: "float_add (1801439850948199 / 2251799813685248) (5404319552844595 / 18014398509481984) = 4953959590107547 / 4503599627370496"
    using float64_at_up [where x = "(1801439850948199 / 2251799813685248) + (5404319552844595 / 18014398509481984)" and n = 0]
    by (simp add: float_add_def round_even_def)
  have d: "float_sub 1 (5 / 8) = 3 / 8"
    using float64_at_down [where x = "1 - (5 / 8)" and n = 2]
    by (simp add: float_sub_def round_even_def)
  have e: "float_mul (3 / 8) (3602879701896397 / 18014398509481984) = 1351079888211149 / 18014398509481984"
    using float64_at_down [where x = "(3 / 8) * (3602879701896397 / 18014398509481984)" and n = 4]
    by (simp add: float_mul_def round_even_def)
  have f: "float_add (4953959590107547 / 4503599627370496) (1351079888211149 / 18014398509481984) = 2645864781080167 / 2251799813685248"
    using float64_at_up [where x = "(4953959590107547 / 4503599627370496) + (1351079888211149 / 18014398509481984)" and n = 0]
    by (simp add: float_add_def round_even_def)
  have g: "float_mul 21 (3602879701896397 / 36028797018963968) = 4728779608739021 / 2251799813685248"
    using float64_at_up [where x = "21 * (3602879701896397 / 36028797018963968)" and n = 1]
    by (simp add: float_mul_def round_even_def)
  have h: "float_add (2645864781080167 / 2251799813685248) (4728779608739021 / 2251799813685248) = 1843661097454797 / 562949953421312"
    using float64_at_up [where x = "(2645864781080167 / 2251799813685248) + (4728779608739021 / 2251799813685248)" and n = 1]
    by (simp add: float_add_def round_even_def)
  show ?thesis
    unfolding risk_formula_def float64_weights a b c d e f g h by (rule refl)
qed

lemma risk_formula_next_retention:
  "risk_formula 2 1 (5 / 8 + 1 / 2 ^ 53) 21 = 1843661097454797 / 562949953421312"
proof -
  have a: "float_mul 2 (3602879701896397 / 9007199254740992) = 3602879701896397 / 4503599627370496"
    using float64_at_down [where x = "2 * (3602879701896397 / 9007199254740992)" and n = 1]
    by (simp add: float_mul_def round_even_def)
  have b: "float_mul 1 (5404319552844595 / 18014398509481984) = 5404319552844595 / 18014398509481984"
    using float64_at_down [where x = "1 * (5404319552844595 / 18014398509481984)" and n = 2]
    by (simp add: float_mul_def round_even_def)
  have c: "float_add (3602879701896397 / 4503599627370496) (5404319552844595 / 18014398509481984) = 2476979795053773 / 2251799813685248"
    using float64_at_up [where x = "(3602879701896397 / 4503599627370496) + (5404319552844595 / 18014398509481984)" and n = 0]
    by (simp add: float_add_def round_even_def)
  have d: "float_sub 1 (5 / 8 + 1 / 2 ^ 53) = 3377699720527871 / 9007199254740992"
    using float64_at_down [where x = "1 - (5 / 8 + 1 / 2 ^ 53)" and n = 2]
    by (simp add: float_sub_def round_even_def)
  have e: "float_mul (3377699720527871 / 9007199254740992) (3602879701896397 / 18014398509481984) = 2702159776422297 / 36028797018963968"
    using float64_at_down [where x = "(3377699720527871 / 9007199254740992) * (3602879701896397 / 18014398509481984)" and n = 4]
    by (simp add: float_mul_def round_even_def)
  have f: "float_add (2476979795053773 / 2251799813685248) (2702159776422297 / 36028797018963968) = 5291729562160333 / 4503599627370496"
    using float64_at_up [where x = "(2476979795053773 / 2251799813685248) + (2702159776422297 / 36028797018963968)" and n = 0]
    by (simp add: float_add_def round_even_def)
  have g: "float_mul 21 (3602879701896397 / 36028797018963968) = 4728779608739021 / 2251799813685248"
    using float64_at_up [where x = "21 * (3602879701896397 / 36028797018963968)" and n = 1]
    by (simp add: float_mul_def round_even_def)
  have h: "float_add (5291729562160333 / 4503599627370496) (4728779608739021 / 2251799813685248) = 1843661097454797 / 562949953421312"
    using float64_at_up [where x = "(5291729562160333 / 4503599627370496) + (4728779608739021 / 2251799813685248)" and n = 1]
    by (simp add: float_add_def round_even_def)
  show ?thesis
    unfolding risk_formula_def float64_weights a b c d e f g h by (rule refl)
qed

lemma risk_example:
  "calculate_risk_metrics (soil_manager score_soil) risk_data = Inr [risk_row_P1 5, risk_row_P2]"
  by (simp add: risk_eval score_soil_def risk_row_P1_def risk_row_P2_def risk_formula_example)

lemma single_row_example:
  "calculate_risk_metrics (soil_manager score_soil) (single_row_data ms) = Inr [risk_row_P1 ms]"
  by (simp add: risk_eval score_soil_def risk_row_P1_def single_row_data_def)

text \<open>
  Claim C6. The \<^verbatim>\<open>risk_score\<close> of every row that \<^verbatim>\<open>calculate_risk_metrics\<close> returns is
  \<open>0.4 * mean_stress + 0.3 * stress_variability + 0.2 * (1 - capacite_retention_eau)
  + 0.1 * mean_temperature\<close> evaluated in float64, the sums taken from left to right;
  it is null exactly when an operand is null. Between non-null operands it is monotone,
  the other inputs being equal: a larger mean stress never gives a smaller score, and
  a larger retention capacity never gives a larger one.
\<close>

theorem risk_score_formula_monotone:
  "risk_formula ms sv cr mt =
     float_add
       (float_add
          (float_add (float_mul (float64 0.4) ms) (float_mul (float64 0.3) sv))
          (float_mul (float64 0.2) (float_sub 1 cr)))
       (float_mul (float64 0.1) mt) \<and>
   (ms \<le> ms' \<longrightarrow> risk_formula ms sv cr mt \<le> risk_formula ms' sv cr mt) \<and>
   (cr \<le> cr' \<longrightarrow> risk_formula ms sv cr' mt \<le> risk_formula ms sv cr mt) \<and>
   risk_score_of (Some ms) (Some sv) (Some cr) (Some mt) = Some (risk_formula ms sv cr mt) \<and>
   (risk_score_of a b c d = None) = (a = None \<or> b = None \<or> c = None \<or> d = None) \<and>
   (calculate_risk_metrics s data = Inr result \<and> r \<in> set result \<longrightarrow>
      risk_score r =
        risk_score_of (mean_stress r) (stress_variability r)
          (capacite_retention_eau r) (mean_temperature r))"
proof (intro conjI impI)
  show "risk_formula ms sv cr mt =
     float_add
       (float_add
          (float_add (float_mul (float64 0.4) ms) (float_mul (float64 0.3) sv))
          (float_mul (float64 0.2) (float_sub 1 cr)))
       (float_mul (float64 0.1) mt)"
    by (simp only: risk_formula_def float_mul_commute [of "float64 _"])
  show "risk_formula ms sv cr mt \<le> risk_formula ms' sv cr mt" if "ms \<le> ms'"
    using that by (rule risk_formula_mono_stress)
  show "risk_formula ms sv cr' mt \<le> risk_formula ms sv cr mt" if "cr \<le> cr'"
    using that by (rule risk_formula_mono_retention)
  show "risk_score_of (Some ms) (Some sv) (Some cr) (Some mt) = Some (risk_formula ms sv cr mt)"
    by (simp add: risk_score_of_def)
  show "(risk_score_of a b c d = None) = (a = None \<or> b = None \<or> c = None \<or> d = None)"
    by (rule risk_score_of_None)
next
  assume a: "calculate_risk_metrics s data = Inr result \<and> r \<in> set result"
  then have "r \<in> set (map add_risk_score (stress_metrics (soil_data s) data))"
    using risk_metrics_result [of s data result] by simp
  then show "risk_score r =
        risk_score_of (mean_stress r) (stress_variability r)
          (capacite_retention_eau r) (mean_temperature r)"
    using risk_row_fields by blast
qed

text \<open>
  The theorem of C6 at the scores of parcel P2 of the example (mean stress 2,
  variability 1, retention 0.625, mean temperature 21), whose score is the float64
  that prints as 3.2750000000000004, and at the null score of parcel P1.
\<close>

theorem risk_score_formula_monotone_witness:
  "(2::real) \<le> 3 \<and> risk_formula 2 1 (5 / 8) 21 \<le> risk_formula 3 1 (5 / 8) 21 \<and>
   (5 / 8 :: real) \<le> 3 / 4 \<and> risk_formula 2 1 (3 / 4) 21 \<le> risk_formula 2 1 (5 / 8) 21 \<and>
   calculate_risk_metrics (soil_manager score_soil) risk_data = Inr [risk_row_P1 5, risk_row_P2] \<and>
   risk_score risk_row_P2 = Some (risk_formula 2 1 (5 / 8) 21) \<and>
   risk_formula 2 1 (5 / 8) 21 = 1843661097454797 / 562949953421312 \<and>
   risk_score (risk_row_P1 5) = risk_score_of (Some 5) None (Some (1 / 4)) (Some 25) \<and>
   risk_score_of (Some 5) None (Some (1 / 4)) (Some 25) = None"
proof -
  note t = risk_score_formula_monotone [where ms = 2 and sv = 1 and cr = "5 / 8" and mt = 21
      and ms' = 3 and cr' = "3 / 4" and s = "soil_manager score_soil" and data = risk_data
      and result = "[risk_row_P1 5, risk_row_P2]"]
  have "risk_formula 2 1 (5 / 8) 21 \<le> risk_formula 3 1 (5 / 8) 21"
    using t [of None None None None risk_row_P2] by simp
  moreover have "risk_formula 2 1 (3 / 4) 21 \<le> risk_formula 2 1 (5 / 8) 21"
    using t [of None None None None risk_row_P2] by simp
  moreover have "risk_score risk_row_P2 = Some (risk_formula 2 1 (5 / 8) 21)"
    using t [of None None None None risk_row_P2] risk_example by (simp add: risk_row_P2_def)
  moreover have "risk_score (risk_row_P1 5) = risk_score_of (Some 5) None (Some (1 / 4)) (Some 25)"
    using t [of None None None None "risk_row_P1 5"] risk_example by (simp add: risk_row_P1_def)
  moreover have "risk_score_of (Some 5) None (Some (1 / 4)) (Some 25) = None"
    using t [of "Some 5" None "Some (1 / 4)" "Some 25" risk_row_P2] by simp
  ultimately show ?thesis using risk_example risk_formula_example by simp
qed

text \<open>
  The score is not strictly monotone. The next float64 after the mean stress 2 gives
  the same score, and so does the next float64 after the retention capacity 0.625:
  the difference is lost in the rounding. And a parcel with a single row has a null
  score whatever its mean stress is.
\<close>

theorem risk_score_strict_counterexample:
  "(2::real) < 2 + 1 / 2 ^ 51 \<and>
   risk_formula (2 + 1 / 2 ^ 51) 1 (5 / 8) 21 = risk_formula 2 1 (5 / 8) 21 \<and>
   (5 / 8 :: real) < 5 / 8 + 1 / 2 ^ 53 \<and>
   risk_formula 2 1 (5 / 8 + 1 / 2 ^ 53) 21 = risk_formula 2 1 (5 / 8) 21 \<and>
   calculate_risk_metrics (soil_manager score_soil) (single_row_data 2) = Inr [risk_row_P1 2] \<and>
   calculate_risk_metrics (soil_manager score_soil) (single_row_data 5) = Inr [risk_row_P1 5] \<and>
   mean_stress (risk_row_P1 2) = Some 2 \<and> mean_stress (risk_row_P1 5) = Some 5 \<and>
   risk_score (risk_row_P1 2) = None \<and> risk_score (risk_row_P1 5) = None"
proof -
  have "risk_formula (2 + 1 / 2 ^ 51) 1 (5 / 8) 21 = risk_formula 2 1 (5 / 8) 21"
    by (simp only: risk_formula_example risk_formula_next_stress)
  moreover have "risk_formula 2 1 (5 / 8 + 1 / 2 ^ 53) 21 = risk_formula 2 1 (5 / 8) 21"
    by (simp only: risk_formula_example risk_formula_next_retention)
  moreover have "mean_stress (risk_row_P1 2) = Some 2 \<and> mean_stress (risk_row_P1 5) = Some 5 \<and>
      risk_score (risk_row_P1 2) = None \<and> risk_score (risk_row_P1 5) = None"
    by (simp add: risk_row_P1_def)
  ultimately show ?thesis using single_row_example [of 2] single_row_example [of 5] by simp
qed

subsection \<open>The yield decomposition\<close>

lemma load_data_yield_filled: "yield_filled (load_data m w soil ys)"
  by (induction ys)
     (auto simp: yield_filled_def load_data_def fill_rendement_final_def split: option.splits)

lemma length_convolution_filter [simp]: "length (convolution_filter x filt) = length x"
  by (simp add: convolution_filter_def Let_def)

lemma seasonal_decompose_lengths:
  assumes "\<forall>x \<in> set xs. x \<noteq> None" "2 * p \<le> length xs"
  shows "\<exists>d. seasonal_decompose xs p = Inr d \<and> length (trend d) = length xs \<and>
           length (seasonal d) = length xs \<and> length (resid d) = length xs \<and>
           length (observed d) = length xs \<and> observed d = xs"
proof -
  have "\<not> list_ex (\<lambda>x. x = None) xs" using assms(1) by (auto simp: list_ex_iff)
  moreover have "\<not> length xs < 2 * p" using assms(2) by simp
  moreover have "length (dropna xs) = length xs" using assms(1) by (rule dropna_all_valid)
  ultimately show ?thesis
    by (simp add: seasonal_decompose_def Let_def)
qed

lemma seasonal_decompose_short:
  assumes "length xs < 2 * p"
  shows "\<exists>e. seasonal_decompose xs p = Inl e"
  using assms by (simp add: seasonal_decompose_def)

lemma length_sort_index [simp]: "length (sort_index f h) = length h"
  by (simp add: sort_index_def)

lemma set_sort_index [simp]: "set (sort_index f h) = set h"
  by (simp add: sort_index_def)

text \<open>
  Claim C8. \<^verbatim>\<open>analyze_yield_patterns\<close> raises its own error for a parcel with no
  yield record, fails for a parcel with exactly one record (the decomposition with
  period 1 wants two observations), and for a parcel with at least two records
  returns trend, seasonal, residual and observed sequences as long as the parcel's
  history. The final yields of the manager's history are not null: \<^verbatim>\<open>load_data\<close>
  has filled them.
\<close>

theorem analyze_yield_patterns_outcomes:
  assumes "yield_filled s"
  shows "(parcel_history s p = [] \<longrightarrow> analyze_yield_patterns s p = Inl (NoYieldData p)) \<and>
         (length (parcel_history s p) = 1 \<longrightarrow>
            analyze_yield_patterns s p = Inl (TooFewObservations 2 1)) \<and>
         (2 \<le> length (parcel_history s p) \<longrightarrow>
            (\<exists>d. analyze_yield_patterns s p = Inr d \<and>
               length (trend d) = length (parcel_history s p) \<and>
               length (seasonal d) = length (parcel_history s p) \<and>
               length (resid d) = length (parcel_history s p) \<and>
               length (observed d) = length (parcel_history s p)))"
proof (intro conjI impI)
  let ?h = "parcel_history s p"
  let ?xs = "map y_rendement_final (sort_index (yield_history s) ?h)"
  have valid: "\<forall>x \<in> set ?xs. x \<noteq> None"
    using assms by (auto simp: yield_filled_def list_all_iff parcel_history_def)
  have len: "length ?xs = length ?h" by simp
  have run: "analyze_yield_patterns s p = seasonal_decompose ?xs 1" if "?h \<noteq> []"
    using that by (simp add: analyze_yield_patterns_def parcel_history_def Let_def)
  show "analyze_yield_patterns s p = Inl (NoYieldData p)" if "?h = []"
    using that by (simp add: analyze_yield_patterns_def parcel_history_def Let_def)
  show "analyze_yield_patterns s p = Inl (TooFewObservations 2 1)" if one: "length ?h = 1"
  proof -
    from one have "?h \<noteq> []" by auto
    moreover have "\<not> list_ex (\<lambda>x. x = None) ?xs" using valid by (auto simp: list_ex_iff)
    moreover have "length ?xs = 1" using one len by simp
    ultimately show ?thesis using run by (simp add: seasonal_decompose_def)
  qed
  show "\<exists>d. analyze_yield_patterns s p = Inr d \<and>
               length (trend d) = length ?h \<and> length (seasonal d) = length ?h \<and>
               length (resid d) = length ?h \<and> length (observed d) = length ?h"
    if two: "2 \<le> length ?h"
  proof -
    from two have ne: "?h \<noteq> []" by auto
    from two len have "2 * 1 \<le> length ?xs" by simp
    from seasonal_decompose_lengths [OF valid this] obtain d
      where "seasonal_decompose ?xs 1 = Inr d" "length (trend d) = length ?xs"
        "length (seasonal d) = length ?xs" "length (resid d) = length ?xs"
        "length (observed d) = length ?xs"
      by blast
    then show ?thesis using run [OF ne] len by auto
  qed
qed

text \<open>
  The theorem of C8 on a history read with one missing final yield: parcel P1 has
  three records, P2 one, P3 none.
\<close>

theorem analyze_yield_patterns_outcomes_witness:
  "yield_filled (load_data [] [] [] yield_example) \<and>
   parcel_history (load_data [] [] [] yield_example) ''P3'' = [] \<and>
   analyze_yield_patterns (load_data [] [] [] yield_example) ''P3'' = Inl (NoYieldData ''P3'') \<and>
   length (parcel_history (load_data [] [] [] yield_example) ''P2'') = 1 \<and>
   analyze_yield_patterns (load_data [] [] [] yield_example) ''P2'' = Inl (TooFewObservations 2 1) \<and>
   length (parcel_history (load_data [] [] [] yield_example) ''P1'') = 3 \<and>
   (\<exists>d. analyze_yield_patterns (load_data [] [] [] yield_example) ''P1'' = Inr d \<and>
      length (trend d) = 3 \<and> length (seasonal d) = 3 \<and> length (resid d) = 3 \<and>
      length (observed d) = 3)"
proof -
  let ?s = "load_data [] [] [] yield_example"
  have f: "yield_filled ?s" by (rule load_data_yield_filled)
  have h: "parcel_history ?s ''P3'' = []" "length (parcel_history ?s ''P2'') = 1"
    "length (parcel_history ?s ''P1'') = 3"
    by (simp_all add: parcel_history_def load_data_def yield_example_def yield_record_def
        fill_rendement_final_def)
  show ?thesis
    using analyze_yield_patterns_outcomes [OF f, of "''P3''"]
      analyze_yield_patterns_outcomes [OF f, of "''P2''"]
      analyze_yield_patterns_outcomes [OF f, of "''P1''"] f h
    by simp
qed

subsection \<open>The weather aggregation\<close>

lemma ceil_step:
  assumes "0 < (n::nat)"
  shows "Suc ((n - 24 + 23) div 24) = (n + 23) div 24"
proof (cases "n < 24")
  case True
  have "(n + 23) div 24 = 1"
    by (rule div_nat_eqI) (use True assms in simp_all)
  with True show ?thesis by simp
next
  case False
  then obtain m where m: "n = m + 24" by (metis le_add_diff_inverse2 not_less)
  have "(m + 24 + 23) div 24 = Suc ((m + 23) div 24)"
    by (simp add: add.commute add.left_commute)
  with m show ?thesis by simp
qed

lemma aggregate_from_length:
  "length (aggregate_from i ws) = (length ws - i + (chunk_size - 1)) div chunk_size"
proof (induction i ws rule: aggregate_from.induct)
  case (1 i ws)
  show ?case
  proof (cases "i < length ws")
    case True
    then have "length (aggregate_from i ws) = Suc (length (aggregate_from (i + chunk_size) ws))"
      by (subst aggregate_from.simps) simp
    also have "\<dots> = Suc ((length ws - (i + chunk_size) + (chunk_size - 1)) div chunk_size)"
      using 1 True by simp
    also have "\<dots> = (length ws - i + (chunk_size - 1)) div chunk_size"
      using True ceil_step [of "length ws - i"] by (simp add: chunk_size_def)
    finally show ?thesis .
  next
    case False
    then show ?thesis by (subst aggregate_from.simps) (simp add: chunk_size_def)
  qed
qed

lemma aggregate_from_empty [simp]: "(aggregate_from 0 ws = []) = (ws = [])"
  by (subst aggregate_from.simps) simp

lemma aggregate_from_nth:
  "k < length (aggregate_from i ws) \<Longrightarrow>
   aggregate_from i ws ! k = chunk_mean (take chunk_size (drop (i + chunk_size * k) ws))"
proof (induction i ws arbitrary: k rule: aggregate_from.induct)
  case (1 i ws)
  show ?case
  proof (cases "i < length ws")
    case True
    then have eq: "aggregate_from i ws =
        chunk_mean (take chunk_size (drop i ws)) # aggregate_from (i + chunk_size) ws"
      by (subst aggregate_from.simps) simp
    show ?thesis
    proof (cases k)
      case 0
      then show ?thesis by (simp only: eq nth_Cons_0 mult_0_right add_0_right)
    next
      case (Suc j)
      with "1.prems" eq have "j < length (aggregate_from (i + chunk_size) ws)" by simp
      from "1.IH" [OF True this] Suc show ?thesis
        by (simp only: eq nth_Cons_Suc mult_Suc_right add.assoc)
    qed
  next
    case False
    with "1.prems" show ?thesis by (subst (asm) aggregate_from.simps) simp
  qed
qed

text \<open>
  The aggregation of a raw weather table of \<open>N\<close> rows has \<open>ceil(N / 24)\<close> records (no
  record for an empty table), and every numeric field of record \<open>k\<close> is the mean of
  the raw rows \<open>24 k\<close> to \<open>min(24 (k + 1), N) - 1\<close>.
\<close>

lemma aggregate_count:
  "length (rows (weather_data (load_data m ws soil ys))) = (length ws + 23) div 24"
  by (simp add: load_data_def aggregate_from_length chunk_size_def)

lemma aggregate_means:
  assumes "k < (length ws + 23) div 24"
  shows "w_num (rows (weather_data (load_data m ws soil ys)) ! k) c =
           mean_opt (map (\<lambda>r. w_num r c) (take 24 (drop (24 * k) ws)))"
    and "w_date (rows (weather_data (load_data m ws soil ys)) ! k) =
           mean_ts (map w_date (take 24 (drop (24 * k) ws)))"
proof -
  have "k < length (aggregate_from 0 ws)"
    using assms by (simp add: aggregate_from_length chunk_size_def)
  from aggregate_from_nth [OF this]
  have "rows (weather_data (load_data m ws soil ys)) ! k = chunk_mean (take 24 (drop (24 * k) ws))"
    by (simp add: load_data_def chunk_size_def)
  then show "w_num (rows (weather_data (load_data m ws soil ys)) ! k) c =
           mean_opt (map (\<lambda>r. w_num r c) (take 24 (drop (24 * k) ws)))"
    and "w_date (rows (weather_data (load_data m ws soil ys)) ! k) =
           mean_ts (map w_date (take 24 (drop (24 * k) ws)))"
    by (simp_all add: chunk_mean_def to_datetime_def)
qed

lemma mean_opt_all_valid:
  assumes "xs \<noteq> []"
  shows "mean_opt (map Some xs) = Some (sum_list xs / real (length xs))"
proof -
  have "dropna (map Some xs) = xs" by (induction xs) simp_all
  with assms show ?thesis by (simp add: mean_opt_def)
qed

lemma hours_of_day:
  "[0..23] = [0, 1, 2, 3, 4, 5, 6, 7, 8, 9, 10, 11, 12, 13, 14, 15, 16, 17, 18, 19, 20,
      21, 22, 23 :: int]"
  by code_simp

lemma hourly_mean_temperature:
  "w_num (chunk_mean hourly_example) temperature = Some 21.5"
  by (simp add: chunk_mean_def hourly_example_def weather_record_def comp_def hours_of_day
      mean_opt_def)

text \<open>
  Claim C1 at one day of hourly records (temperatures 10 to 33): the table is
  aggregated into one record, whose temperature is the mean of the day, 21.5, and
  whose date is the mean timestamp, 2021-01-01 11:30 (30 minutes are 1800000000000
  nanoseconds), not midnight of 2021-01-01: the time of day is not truncated.
\<close>

theorem aggregated_date_keeps_time_of_day:
  "length hourly_example = 24 \<and>
   length (rows (weather_data (load_data [] hourly_example [] []))) = 1 \<and>
   map (\<lambda>r. w_num r temperature) (rows (weather_data (load_data [] hourly_example [] [])))
     = [Some 21.5] \<and>
   map w_date (rows (weather_data (load_data [] hourly_example [] [])))
     = [date_2021 1 + 11 * hour_ns + 1800000000000] \<and>
   map w_date (rows (weather_data (load_data [] hourly_example [] []))) \<noteq> [date_2021 1]"
proof -
  have len: "length hourly_example = 24" by (simp add: hourly_example_def)
  have agg: "aggregate_from 0 hourly_example = [chunk_mean hourly_example]"
    by (subst aggregate_from.simps, subst aggregate_from.simps) (simp add: len chunk_size_def)
  have "map w_date hourly_example = map (\<lambda>k. date_2021 1 + k * hour_ns) [0..23]"
    by (simp add: hourly_example_def weather_record_def comp_def)
  then have mean: "mean_ts (map w_date hourly_example) = date_2021 1 + 11 * hour_ns + 1800000000000"
    by (simp add: hours_of_day mean_ts_def date_2021_def day_ns_def hour_ns_def)
  have "rows (weather_data (load_data [] hourly_example [] [])) = aggregate_from 0 hourly_example"
    unfolding load_data_def by simp
  then have r: "rows (weather_data (load_data [] hourly_example [] [])) = [chunk_mean hourly_example]"
    by (simp only: agg)
  have d: "w_date (chunk_mean hourly_example) = date_2021 1 + 11 * hour_ns + 1800000000000"
    by (simp add: chunk_mean_def to_datetime_def mean)
  have "date_2021 1 + 11 * hour_ns + 1800000000000 \<noteq> date_2021 1"
    by (simp add: hour_ns_def)
  with len r d hourly_mean_temperature show ?thesis by simp
qed

subsection \<open>The temporal consistency check\<close>

lemma setup_temporal_indices_Inr:
  assumes "setup_temporal_indices s = Inr s1"
  shows "date_columns s" and "date_indexed s1"
    and "rows (monitoring_data s1) = rows (monitoring_data s)"
    and "rows (weather_data s1) = rows (weather_data s)"
    and "rows (yield_history s1) = rows (yield_history s)"
    and "soil_data s1 = soil_data s"
    and "reset_indices s1 = s"
    and "s1 = with_date_index s"
  using assms
  by (auto simp: setup_temporal_indices_def set_index_date_def date_columns_def date_indexed_def
      reset_indices_def reset_index_def with_date_index_def split: if_splits)

lemma setup_temporal_indices_ok:
  assumes "date_columns s"
  shows "setup_temporal_indices s = Inr (with_date_index s)"
  using assms
  by (simp add: setup_temporal_indices_def set_index_date_def date_columns_def with_date_index_def)

lemma setup_temporal_indices_twice:
  assumes "date_indexed s"
  shows "setup_temporal_indices s = Inl (KeyError ''date'')"
  using assms by (simp add: setup_temporal_indices_def set_index_date_def date_indexed_def)

lemma index_bounds_Inr: "ds \<noteq> [] \<Longrightarrow> \<exists>b. index_bounds ds = Inr b"
  by (cases ds) (simp_all add: index_bounds_def)

lemma verify_returns:
  assumes "date_indexed s" "rows (monitoring_data s) \<noteq> []" "rows (weather_data s) \<noteq> []"
    "rows (yield_history s) \<noteq> []"
  shows "\<exists>rep. verify_temporal_consistency s = Inr (s, rep)"
proof -
  obtain m where "index_bounds (map m_date (rows (monitoring_data s))) = Inr m"
    using index_bounds_Inr [of "map m_date (rows (monitoring_data s))"] assms(2) by auto
  moreover obtain w where "index_bounds (map w_date (rows (weather_data s))) = Inr w"
    using index_bounds_Inr [of "map w_date (rows (weather_data s))"] assms(3) by auto
  moreover obtain y where "index_bounds (map y_date (rows (yield_history s))) = Inr y"
    using index_bounds_Inr [of "map y_date (rows (yield_history s))"] assms(4) by auto
  ultimately show ?thesis
    using assms(1) by (simp add: verify_temporal_consistency_def Let_def)
qed

lemma verify_empty_monitoring:
  assumes "date_indexed s" "rows (monitoring_data s) = []"
  shows "verify_temporal_consistency s = Inl EmptyIndex"
  using assms by (simp add: verify_temporal_consistency_def Let_def index_bounds_def)

lemma verify_empty_yield_history:
  assumes "date_indexed s" "rows (yield_history s) = []"
  shows "verify_temporal_consistency s = Inl EmptyIndex"
  using assms
  by (cases "rows (monitoring_data s)"; cases "rows (weather_data s)")
     (simp_all add: verify_temporal_consistency_def Let_def index_bounds_def)

lemma verify_report:
  assumes "verify_temporal_consistency s = Inr (s', rep)"
  shows "s' = s"
    and "index_bounds (map m_date (rows (monitoring_data s))) = Inr (monitoring_range rep)"
    and "index_bounds (map w_date (rows (weather_data s))) = Inr (weather_range rep)"
    and "monitoring_weather_line rep =
           (if within_tolerance (days_apart (fst (monitoring_range rep)) (fst (weather_range rep))) \<and>
               within_tolerance (days_apart (snd (monitoring_range rep)) (snd (weather_range rep)))
            then line_ok else line_incoherence)"
  using assms
  by (auto simp: verify_temporal_consistency_def Let_def split: if_splits sum.splits)

lemma lines_differ: "line_ok \<noteq> line_incoherence"
  by (simp add: line_ok_def line_incoherence_def arrow_def)

text \<open>
  Claim C7, as the code has it. On date-indexed tables in which Monitoring, Weather
  and YieldHistory have at least one row each, the temporal consistency check does
  not raise and returns the manager as it got it, with a report. The report's
  monitoring-vs-weather line is "OK" for the Monitoring range [2021-01-01,
  2021-12-31] against the Weather range [2021-01-02, 2021-12-30], and "Incoherence
  detectee" (with its accents) when the Weather range starts 2021-01-05 instead; the
  ends of these ranges are at midnight.
\<close>

theorem temporal_check_reports:
  "(date_indexed s \<and> rows (monitoring_data s) \<noteq> [] \<and> rows (weather_data s) \<noteq> [] \<and>
    rows (yield_history s) \<noteq> [] \<longrightarrow>
      (\<exists>rep. verify_temporal_consistency s = Inr (s, rep))) \<and>
   (verify_temporal_consistency s = Inr (s', rep) \<longrightarrow>
      s' = s \<and>
      index_bounds (map m_date (rows (monitoring_data s))) = Inr (monitoring_range rep) \<and>
      index_bounds (map w_date (rows (weather_data s))) = Inr (weather_range rep) \<and>
      (monitoring_range rep = (date_2021 1, date_2021 365) \<and>
       weather_range rep = (date_2021 2, date_2021 364) \<longrightarrow>
         monitoring_weather_line rep = line_ok) \<and>
      (monitoring_range rep = (date_2021 1, date_2021 365) \<and>
       weather_range rep = (date_2021 5, date_2021 364) \<longrightarrow>
         monitoring_weather_line rep = line_incoherence))"
proof (intro conjI impI)
  assume "date_indexed s \<and> rows (monitoring_data s) \<noteq> [] \<and> rows (weather_data s) \<noteq> [] \<and>
    rows (yield_history s) \<noteq> []"
  then show "\<exists>rep. verify_temporal_consistency s = Inr (s, rep)"
    using verify_returns by blast
next
  assume v: "verify_temporal_consistency s = Inr (s', rep)"
  note r = verify_report [OF v]
  show "s' = s" by (rule r(1))
  show "index_bounds (map m_date (rows (monitoring_data s))) = Inr (monitoring_range rep)"
    by (rule r(2))
  show "index_bounds (map w_date (rows (weather_data s))) = Inr (weather_range rep)"
    by (rule r(3))
  show "monitoring_weather_line rep = line_ok"
    if "monitoring_range rep = (date_2021 1, date_2021 365) \<and>
        weather_range rep = (date_2021 2, date_2021 364)"
    using that r(4)
    by (simp add: date_2021_def day_ns_def days_apart_def within_tolerance_def tolerance_days_def)
  show "monitoring_weather_line rep = line_incoherence"
    if "monitoring_range rep = (date_2021 1, date_2021 365) \<and>
        weather_range rep = (date_2021 5, date_2021 364)"
    using that r(4)
    by (simp add: date_2021_def day_ns_def days_apart_def within_tolerance_def tolerance_days_def)
qed

lemma two_blocks:
  assumes "length a = 24" "length b = 24"
  shows "aggregate_from 0 (a @ b) = [chunk_mean a, chunk_mean b]"
  using assms
  by (subst aggregate_from.simps, subst aggregate_from.simps, subst aggregate_from.simps)
     (simp add: chunk_size_def)

lemma daily_date: "w_date (chunk_mean (replicate 24 (weather_record d t))) = d"
  by (simp add: chunk_mean_def to_datetime_def mean_ts_def weather_record_def sum_list_replicate)

lemma daily_weather_dates:
  "map w_date (aggregate_from 0 (daily_weather w)) = [w, date_2021 364]"
  by (simp add: daily_weather_def two_blocks daily_date)

lemma hourly_date:
  "w_date (chunk_mean (hourly_day (date_2021 2))) = date_2021 2 + 11 * hour_ns + 1800000000000"
  "w_date (chunk_mean (hourly_day (date_2021 364))) = date_2021 364 + 11 * hour_ns + 1800000000000"
  by (simp_all add: chunk_mean_def to_datetime_def mean_ts_def hourly_day_def weather_record_def
      comp_def hours_of_day date_2021_def day_ns_def hour_ns_def)

lemma hourly_weather_dates:
  "map w_date (aggregate_from 0 hourly_weather)
     = [date_2021 2 + 11 * hour_ns + 1800000000000, date_2021 364 + 11 * hour_ns + 1800000000000]"
proof -
  have "length (hourly_day d) = 24" for d
    by (simp add: hourly_day_def)
  then have "aggregate_from 0 hourly_weather
      = [chunk_mean (hourly_day (date_2021 2)), chunk_mean (hourly_day (date_2021 364))]"
    unfolding hourly_weather_def by (intro two_blocks)
  then show ?thesis by (simp only: list.map hourly_date)
qed

lemma check_tables_loaded:
  assumes "w \<noteq> []"
  shows "setup_temporal_indices (check_tables m w y) = Inr (check_state m w y)"
    and "date_indexed (check_state m w y)"
    and "rows (monitoring_data (check_state m w y)) = m"
    and "rows (weather_data (check_state m w y)) = aggregate_from 0 w"
    and "rows (yield_history (check_state m w y)) = map fill_rendement_final y"
proof -
  have c: "date_columns (check_tables m w y)"
    using assms by (simp add: check_tables_def load_data_def date_columns_def)
  show "setup_temporal_indices (check_tables m w y) = Inr (check_state m w y)"
    unfolding check_state_def using c by (rule setup_temporal_indices_ok)
  show "date_indexed (check_state m w y)"
    by (simp add: check_state_def with_date_index_def date_indexed_def)
  show "rows (monitoring_data (check_state m w y)) = m"
    by (simp add: check_state_def with_date_index_def check_tables_def load_data_def)
  show "rows (weather_data (check_state m w y)) = aggregate_from 0 w"
    by (simp add: check_state_def with_date_index_def check_tables_def load_data_def)
  show "rows (yield_history (check_state m w y)) = map fill_rendement_final y"
    by (simp add: check_state_def with_date_index_def check_tables_def load_data_def)
qed

lemma weather_examples_loaded: "daily_weather w \<noteq> []" "hourly_weather \<noteq> []"
  by (simp_all add: daily_weather_def hourly_weather_def hourly_day_def)

lemma check_state_bounds:
  "index_bounds (map m_date year_2021) = Inr (date_2021 1, date_2021 365)"
  "index_bounds [date_2021 2, date_2021 364] = Inr (date_2021 2, date_2021 364)"
  "index_bounds [date_2021 5, date_2021 364] = Inr (date_2021 5, date_2021 364)"
  "index_bounds
     [date_2021 2 + 11 * hour_ns + 1800000000000, date_2021 364 + 11 * hour_ns + 1800000000000]
     = Inr (date_2021 2 + 11 * hour_ns + 1800000000000,
            date_2021 364 + 11 * hour_ns + 1800000000000)"
  by (simp_all add: year_2021_def monitoring_record_def index_bounds_def date_2021_def day_ns_def
      hour_ns_def)

text \<open>
  The theorem of C7 at the two pairs of ranges of the claim, on tables that
  \<^verbatim>\<open>load_data\<close> and \<^verbatim>\<open>_setup_temporal_indices\<close> have produced.
\<close>

theorem temporal_check_reports_witness:
  "setup_temporal_indices (check_tables year_2021 (daily_weather (date_2021 2)) check_yields)
     = Inr (check_state year_2021 (daily_weather (date_2021 2)) check_yields) \<and>
   date_indexed (check_state year_2021 (daily_weather (date_2021 2)) check_yields) \<and>
   rows (monitoring_data (check_state year_2021 (daily_weather (date_2021 2)) check_yields)) \<noteq> [] \<and>
   rows (weather_data (check_state year_2021 (daily_weather (date_2021 2)) check_yields)) \<noteq> [] \<and>
   rows (yield_history (check_state year_2021 (daily_weather (date_2021 2)) check_yields)) \<noteq> [] \<and>
   (\<exists>rep. verify_temporal_consistency
             (check_state year_2021 (daily_weather (date_2021 2)) check_yields)
             = Inr (check_state year_2021 (daily_weather (date_2021 2)) check_yields, rep) \<and>
          monitoring_range rep = (date_2021 1, date_2021 365) \<and>
          weather_range rep = (date_2021 2, date_2021 364) \<and>
          monitoring_weather_line rep = line_ok) \<and>
   (\<exists>rep. verify_temporal_consistency
             (check_state year_2021 (daily_weather (date_2021 5)) check_yields)
             = Inr (check_state year_2021 (daily_weather (date_2021 5)) check_yields, rep) \<and>
          monitoring_range rep = (date_2021 1, date_2021 365) \<and>
          weather_range rep = (date_2021 5, date_2021 364) \<and>
          monitoring_weather_line rep = line_incoherence) \<and>
   line_ok \<noteq> line_incoherence"
proof -
  note l = check_tables_loaded [OF weather_examples_loaded(1)]
  have ne: "rows (monitoring_data (check_state year_2021 (daily_weather w) check_yields)) \<noteq> []"
    "rows (weather_data (check_state year_2021 (daily_weather w) check_yields)) \<noteq> []"
    "rows (yield_history (check_state year_2021 (daily_weather w) check_yields)) \<noteq> []" for w
    by (simp_all add: l weather_examples_loaded year_2021_def check_yields_def)
  have ok: "\<exists>rep. verify_temporal_consistency
             (check_state year_2021 (daily_weather (date_2021 2)) check_yields)
             = Inr (check_state year_2021 (daily_weather (date_2021 2)) check_yields, rep) \<and>
          monitoring_range rep = (date_2021 1, date_2021 365) \<and>
          weather_range rep = (date_2021 2, date_2021 364) \<and>
          monitoring_weather_line rep = line_ok"
  proof -
    let ?s = "check_state year_2021 (daily_weather (date_2021 2)) check_yields"
    from temporal_check_reports [of ?s ?s] l(2) ne
    obtain rep where v: "verify_temporal_consistency ?s = Inr (?s, rep)" by blast
    from temporal_check_reports [of ?s ?s rep] v
    have "monitoring_range rep = (date_2021 1, date_2021 365) \<and>
          weather_range rep = (date_2021 2, date_2021 364) \<and>
          monitoring_weather_line rep = line_ok"
      by (simp add: l daily_weather_dates check_state_bounds)
    with v show ?thesis by blast
  qed
  have bad: "\<exists>rep. verify_temporal_consistency
             (check_state year_2021 (daily_weather (date_2021 5)) check_yields)
             = Inr (check_state year_2021 (daily_weather (date_2021 5)) check_yields, rep) \<and>
          monitoring_range rep = (date_2021 1, date_2021 365) \<and>
          weather_range rep = (date_2021 5, date_2021 364) \<and>
          monitoring_weather_line rep = line_incoherence"
  proof -
    let ?s = "check_state year_2021 (daily_weather (date_2021 5)) check_yields"
    from temporal_check_reports [of ?s ?s] l(2) ne
    obtain rep where v: "verify_temporal_consistency ?s = Inr (?s, rep)" by blast
    from temporal_check_reports [of ?s ?s rep] v
    have "monitoring_range rep = (date_2021 1, date_2021 365) \<and>
          weather_range rep = (date_2021 5, date_2021 364) \<and>
          monitoring_weather_line rep = line_incoherence"
      by (simp add: l daily_weather_dates check_state_bounds)
    with v show ?thesis by blast
  qed
  show ?thesis
    using ok bad ne l(1,2) lines_differ by blast
qed

text \<open>
  Claim C7 as stated (the check never raises, for every input) fails on an empty
  Monitoring table, and on an empty yield history, with the other tables as above:
  the bounds of the empty index are null, the check's date arithmetic and comparisons
  raise on them, and \<^verbatim>\<open>prepare_features\<close> stops there. And a Weather table aggregated
  from hourly records of 2021-01-02 and 2021-12-30 runs from 11:30 of the first day
  to 11:30 of the second: against the Monitoring range [2021-01-01, 2021-12-31] the
  report is "Incoherence detectee", the difference of one day and a half at the start
  counting as two days.
\<close>

theorem temporal_check_raises_counterexample:
  "setup_temporal_indices (check_tables [] (daily_weather (date_2021 2)) check_yields)
     = Inr (check_state [] (daily_weather (date_2021 2)) check_yields) \<and>
   verify_temporal_consistency (check_state [] (daily_weather (date_2021 2)) check_yields)
     = Inl EmptyIndex \<and>
   prepare_features (check_tables [] (daily_weather (date_2021 2)) check_yields)
     = Inl EmptyIndex \<and>
   setup_temporal_indices (check_tables year_2021 (daily_weather (date_2021 2)) [])
     = Inr (check_state year_2021 (daily_weather (date_2021 2)) []) \<and>
   verify_temporal_consistency (check_state year_2021 (daily_weather (date_2021 2)) [])
     = Inl EmptyIndex \<and>
   prepare_features (check_tables year_2021 (daily_weather (date_2021 2)) [])
     = Inl EmptyIndex \<and>
   setup_temporal_indices (check_tables year_2021 hourly_weather check_yields)
     = Inr (check_state year_2021 hourly_weather check_yields) \<and>
   (\<exists>rep. verify_temporal_consistency (check_state year_2021 hourly_weather check_yields)
             = Inr (check_state year_2021 hourly_weather check_yields, rep) \<and>
          monitoring_range rep = (date_2021 1, date_2021 365) \<and>
          weather_range rep = (date_2021 2 + 11 * hour_ns + 1800000000000,
                               date_2021 364 + 11 * hour_ns + 1800000000000) \<and>
          days_apart (date_2021 1) (date_2021 2 + 11 * hour_ns + 1800000000000) = - 2 \<and>
          monitoring_weather_line rep = line_incoherence)"
proof -
  note d = check_tables_loaded [OF weather_examples_loaded(1)]
  note h = check_tables_loaded [OF weather_examples_loaded(2)]
  have m: "verify_temporal_consistency (check_state [] (daily_weather (date_2021 2)) check_yields)
      = Inl EmptyIndex"
    by (rule verify_empty_monitoring) (simp_all add: d)
  have y: "verify_temporal_consistency (check_state year_2021 (daily_weather (date_2021 2)) [])
      = Inl EmptyIndex"
    by (rule verify_empty_yield_history) (simp_all add: d)
  have pm: "prepare_features (check_tables [] (daily_weather (date_2021 2)) check_yields)
      = Inl EmptyIndex"
    using m by (simp add: prepare_features_def d)
  have py: "prepare_features (check_tables year_2021 (daily_weather (date_2021 2)) [])
      = Inl EmptyIndex"
    using y by (simp add: prepare_features_def d)
  let ?s = "check_state year_2021 hourly_weather check_yields"
  have "\<exists>rep. verify_temporal_consistency ?s = Inr (?s, rep)"
    by (rule verify_returns)
      (simp_all add: h weather_examples_loaded year_2021_def check_yields_def)
  then obtain rep where v: "verify_temporal_consistency ?s = Inr (?s, rep)" by blast
  note r = verify_report [OF v]
  have mr: "monitoring_range rep = (date_2021 1, date_2021 365)"
    using r(2) by (simp add: h check_state_bounds)
  have wr: "weather_range rep = (date_2021 2 + 11 * hour_ns + 1800000000000,
                               date_2021 364 + 11 * hour_ns + 1800000000000)"
    using r(3) by (simp add: h hourly_weather_dates check_state_bounds)
  have da: "days_apart (date_2021 1) (date_2021 2 + 11 * hour_ns + 1800000000000) = - 2"
    by (simp add: days_apart_def date_2021_def day_ns_def hour_ns_def)
  have "monitoring_weather_line rep = line_incoherence"
    using r(4) da by (simp add: mr wr within_tolerance_def tolerance_days_def)
  with v mr wr da have "\<exists>rep. verify_temporal_consistency ?s = Inr (?s, rep) \<and>
          monitoring_range rep = (date_2021 1, date_2021 365) \<and>
          weather_range rep = (date_2021 2 + 11 * hour_ns + 1800000000000,
                               date_2021 364 + 11 * hour_ns + 1800000000000) \<and>
          days_apart (date_2021 1) (date_2021 2 + 11 * hour_ns + 1800000000000) = - 2 \<and>
          monitoring_weather_line rep = line_incoherence"
    by blast
  then show ?thesis using m y pm py d(1) h(1) by simp
qed

subsection \<open>The feature merger\<close>

lemma prepare_features_Inr:
  assumes "prepare_features s = Inr (s', ft)"
  shows "\<exists>c2 f. setup_temporal_indices s = Inr s' \<and>
           combine_soil s' (combine_weather s') = Inr c2 \<and>
           enrich_with_yield_history s' c2 = Inr f \<and> ft = gap_fill f"
proof -
  from assms obtain s1 where s1: "setup_temporal_indices s = Inr s1"
    by (auto simp: prepare_features_def split: sum.splits)
  with assms obtain s2 rep where v: "verify_temporal_consistency s1 = Inr (s2, rep)"
    by (auto simp: prepare_features_def split: sum.splits)
  then have "s2 = s1" by (rule verify_report(1))
  with assms s1 v show ?thesis
    by (auto simp: prepare_features_def Let_def split: sum.splits)
qed

lemma prepare_features_run:
  assumes "setup_temporal_indices s = Inr s1" "rows (monitoring_data s) \<noteq> []"
    and "rows (weather_data s) \<noteq> []" "rows (yield_history s) \<noteq> []"
    and "combine_soil s1 (combine_weather s1) = Inr c2"
    and "enrich_with_yield_history s1 c2 = Inr f"
  shows "prepare_features s = Inr (s1, gap_fill f)"
proof -
  have "date_indexed s1" "rows (monitoring_data s1) \<noteq> []" "rows (weather_data s1) \<noteq> []"
    "rows (yield_history s1) \<noteq> []"
    using setup_temporal_indices_Inr [OF assms(1)] assms(2,3,4) by simp_all
  then obtain rep where "verify_temporal_consistency s1 = Inr (s1, rep)"
    using verify_returns by blast
  then show ?thesis
    using assms by (simp add: prepare_features_def Let_def)
qed

lemma length_fill_carry [simp]: "length (fill_carry p ft) = length ft"
  by (simp add: fill_carry_def Let_def)

lemma length_fill_interpolate [simp]: "length (fill_interpolate p ft) = length ft"
  by (simp add: fill_interpolate_def Let_def)

lemma length_fold_fill_carry [simp]: "length (fold fill_carry ps ft) = length ft"
  by (induction ps arbitrary: ft) simp_all

lemma length_fold_fill_interpolate [simp]: "length (fold fill_interpolate ps ft) = length ft"
  by (induction ps arbitrary: ft) simp_all

lemma length_gap_fill [simp]: "length (gap_fill ft) = length ft"
  by (simp add: gap_fill_def Let_def)

lemma culture_fill_carry: "map f_culture (fill_carry p ft) = map f_culture ft"
  unfolding fill_carry_def Let_def by (rule map_loc_assign_other) simp

lemma culture_fill_interpolate: "map f_culture (fill_interpolate p ft) = map f_culture ft"
  unfolding fill_interpolate_def Let_def by (rule map_loc_assign_other) simp

lemma culture_fold_fill_carry: "map f_culture (fold fill_carry ps ft) = map f_culture ft"
  by (induction ps arbitrary: ft) (simp_all add: culture_fill_carry)

lemma culture_fold_fill_interpolate:
  "map f_culture (fold fill_interpolate ps ft) = map f_culture ft"
  by (induction ps arbitrary: ft) (simp_all add: culture_fill_interpolate)

lemma culture_fillna: "map f_culture (map fillna_rendement_final ft) = map f_culture ft"
  by (induction ft) (auto simp: fillna_rendement_final_def split: option.splits)

lemma culture_gap_fill: "map f_culture (gap_fill ft) = map f_culture ft"
  by (simp only: gap_fill_def Let_def culture_fillna culture_fold_fill_interpolate
      culture_fold_fill_carry)

lemma length_combine_weather [simp]:
  "length (combine_weather s) = length (rows (monitoring_data s))"
  by (simp add: combine_weather_def merge_asof_def)

lemma map_fst_combine_weather:
  "map fst (combine_weather s) = sort_key m_date (rows (monitoring_data s))"
  by (simp add: combine_weather_def merge_asof_def comp_def)

lemma set_index_from_Inr: "set_index_from idx xs = Inr ys \<Longrightarrow> ys = xs \<and> length xs = length idx"
  by (simp add: set_index_from_def split: if_splits)

lemma merge_left_same_length:
  assumes "length (merge_left on ls rs) = length ls"
  shows "merge_left on ls rs =
           map (\<lambda>l. (l, case filter (on l) rs of [] \<Rightarrow> None | r # _ \<Rightarrow> Some r)) ls"
  using length_merge_left_eq [OF assms] by (rule merge_left_single)

lemma soil_keys_matches: "filter (soil_keys l) (soil_data s) = soil_matches s (fst l)"
  by (simp add: soil_matches_def soil_keys_def [abs_def])

lemma yield_keys_matches:
  "filter (yield_keys l) (rows (yield_history s)) = yield_matches s (fst (fst l))"
  by (simp add: yield_matches_def yield_keys_def [abs_def])

lemma combine_soil_Inr:
  assumes "combine_soil s c1 = Inr c2"
  shows "length c2 = length c1" and "map fst c2 = c1"
proof -
  from assms have c2: "c2 = merge_left soil_keys c1 (soil_data s)"
    and len: "length (merge_left soil_keys c1 (soil_data s)) = length c1"
    using set_index_from_Inr [of c1 "merge_left soil_keys c1 (soil_data s)" c2]
    by (simp_all add: combine_soil_def)
  show "length c2 = length c1" using c2 len by simp
  show "map fst c2 = c1"
    by (simp only: c2 merge_left_same_length [OF len]) (simp add: comp_def)
qed

lemma enrich_Inr:
  assumes "enrich_with_yield_history s c2 = Inr f"
  shows "length f = length c2"
    and "map f_culture f = map (\<lambda>l. yield_culture s (fst (fst l))) c2"
proof -
  let ?m = "merge_left yield_keys c2 (rows (yield_history s))"
  from assms have f: "f = map feature_of ?m" and len: "length ?m = length c2"
    using set_index_from_Inr [of c2 ?m]
    by (auto simp: enrich_with_yield_history_def split: sum.splits)
  show "length f = length c2" using f len by simp
  have "map f_culture f =
          map (\<lambda>l. f_culture (feature_of
                 (l, case filter (yield_keys l) (rows (yield_history s)) of
                       [] \<Rightarrow> None | r # _ \<Rightarrow> Some r))) c2"
    by (simp only: f merge_left_same_length [OF len]) (simp add: comp_def)
  also have "\<dots> = map (\<lambda>l. yield_culture s (fst (fst l))) c2"
    by (rule map_cong)
       (simp_all add: feature_of_def Let_def yield_culture_def yield_keys_matches
          split: list.splits)
  finally show "map f_culture f = map (\<lambda>l. yield_culture s (fst (fst l))) c2" .
qed

lemma culture_of_features:
  assumes "prepare_features s = Inr (s', features)"
  shows "map f_culture features =
           map (yield_culture s) (sort_key m_date (rows (monitoring_data s)))"
proof -
  from prepare_features_Inr [OF assms] obtain c2 f
    where su: "setup_temporal_indices s = Inr s'"
      and cs: "combine_soil s' (combine_weather s') = Inr c2"
      and en: "enrich_with_yield_history s' c2 = Inr f"
      and ft: "features = gap_fill f"
    by blast
  note same = setup_temporal_indices_Inr [OF su]
  have yc: "yield_culture s' = yield_culture s"
    by (rule ext) (simp add: yield_culture_def yield_matches_def same(5))
  have "map f_culture features = map f_culture f"
    by (simp add: ft culture_gap_fill)
  also have "\<dots> = map (\<lambda>l. yield_culture s' (fst (fst l))) c2"
    by (rule enrich_Inr(2) [OF en])
  also have "\<dots> = map (yield_culture s') (map fst (map fst c2))"
    by (simp add: comp_def)
  also have "\<dots> = map (yield_culture s) (sort_key m_date (rows (monitoring_data s)))"
    by (simp only: combine_soil_Inr(2) [OF cs] map_fst_combine_weather same(3) yc)
  finally show ?thesis .
qed

lemma length_of_features:
  assumes p: "prepare_features s = Inr (s', features)"
  shows "length features = length (rows (monitoring_data s))"
proof -
  from prepare_features_Inr [OF p] obtain c2 f
    where su: "setup_temporal_indices s = Inr s'"
      and cs: "combine_soil s' (combine_weather s') = Inr c2"
      and en: "enrich_with_yield_history s' c2 = Inr f"
      and ft: "features = gap_fill f"
    by blast
  show "length features = length (rows (monitoring_data s))"
    using ft enrich_Inr(1) [OF en] combine_soil_Inr(1) [OF cs]
      setup_temporal_indices_Inr(3) [OF su]
    by simp
qed

lemma prepare_features_unique_keys:
  assumes h: "date_columns s \<and> rows (monitoring_data s) \<noteq> [] \<and>
    rows (weather_data s) \<noteq> [] \<and> rows (yield_history s) \<noteq> [] \<and>
    (\<forall>m \<in> set (rows (monitoring_data s)). length (soil_matches s m) \<le> 1) \<and>
    (\<forall>m \<in> set (rows (monitoring_data s)). length (yield_matches s m) \<le> 1)"
  shows "\<exists>s' features. prepare_features s = Inr (s', features) \<and>
         length features = length (rows (monitoring_data s))"
proof -
  from h obtain s1 where su: "setup_temporal_indices s = Inr s1"
    using setup_temporal_indices_ok by blast
  note same = setup_temporal_indices_Inr [OF su]
  let ?c1 = "combine_weather s1"
  have c1: "fst l \<in> set (rows (monitoring_data s))" if "l \<in> set ?c1" for l
  proof -
    from that have "fst l \<in> set (map fst ?c1)" by simp
    then show ?thesis by (simp only: map_fst_combine_weather same(3)) simp
  qed
  have "\<forall>l \<in> set ?c1. length (filter (soil_keys l) (soil_data s1)) \<le> 1"
  proof
    fix l assume "l \<in> set ?c1"
    then have "length (soil_matches s (fst l)) \<le> 1" using h c1 by blast
    then show "length (filter (soil_keys l) (soil_data s1)) \<le> 1"
      by (simp add: soil_keys_matches soil_matches_def same(6))
  qed
  then have m1: "merge_left soil_keys ?c1 (soil_data s1) =
      map (\<lambda>l. (l, case filter (soil_keys l) (soil_data s1) of [] \<Rightarrow> None | r # _ \<Rightarrow> Some r)) ?c1"
    by (rule merge_left_single)
  define c2 where "c2 = merge_left soil_keys ?c1 (soil_data s1)"
  have cs: "combine_soil s1 ?c1 = Inr c2"
    by (simp add: combine_soil_def set_index_from_def c2_def m1)
  have c2: "fst (fst l) \<in> set (rows (monitoring_data s))" if "l \<in> set c2" for l
  proof -
    from that have "fst l \<in> set (map fst c2)" by simp
    then have "fst l \<in> set ?c1" by (simp only: combine_soil_Inr(2) [OF cs])
    then show ?thesis by (rule c1)
  qed
  have "\<forall>l \<in> set c2. length (filter (yield_keys l) (rows (yield_history s1))) \<le> 1"
  proof
    fix l assume "l \<in> set c2"
    then have "length (yield_matches s (fst (fst l))) \<le> 1" using h c2 by blast
    then show "length (filter (yield_keys l) (rows (yield_history s1))) \<le> 1"
      by (simp add: yield_keys_matches yield_matches_def same(5))
  qed
  then have m2: "merge_left yield_keys c2 (rows (yield_history s1)) =
      map (\<lambda>l. (l, case filter (yield_keys l) (rows (yield_history s1)) of
                     [] \<Rightarrow> None | r # _ \<Rightarrow> Some r)) c2"
    by (rule merge_left_single)
  define f where "f = map feature_of (merge_left yield_keys c2 (rows (yield_history s1)))"
  have en: "enrich_with_yield_history s1 c2 = Inr f"
    by (simp add: enrich_with_yield_history_def set_index_from_def f_def m2)
  have run: "prepare_features s = Inr (s1, gap_fill f)"
    using su h cs en by (intro prepare_features_run) simp_all
  have "length (gap_fill f) = length (rows (monitoring_data s))"
    using enrich_Inr(1) [OF en] combine_soil_Inr(1) [OF cs] same(3) by simp
  with run show ?thesis by blast
qed

text \<open>
  Claim C9, as the code has it. In the FeatureTable \<^verbatim>\<open>prepare_features\<close> returns, the
  \<^verbatim>\<open>culture\<close> of a row is the \<^verbatim>\<open>culture\<close> of the YieldHistory record that matches the
  Monitoring row on (date, parcelle\_id), and null when none matches: the merge drops
  the Monitoring table's \<^verbatim>\<open>culture\<close> column.
\<close>

theorem feature_culture_from_yield_history:
  assumes "prepare_features s = Inr (s', features)"
  shows "map f_culture features =
           map (yield_culture s) (sort_key m_date (rows (monitoring_data s)))"
  using assms by (rule culture_of_features)

text \<open>
  Claim C4. Whenever \<^verbatim>\<open>prepare_features\<close> returns a FeatureTable, the table has exactly
  as many rows as the Monitoring table: the as-of join keeps one row for each
  Monitoring row, and each of the two left joins is followed by a \<^verbatim>\<open>set_index\<close> with
  the index of the table before the join, which raises when the join has added a
  row. This holds in particular for every input in which each Monitoring row has at
  most one matching Soil row and at most one matching YieldHistory row.
\<close>

theorem feature_table_row_count:
  "prepare_features s = Inr (s', features) \<longrightarrow>
     length features = length (rows (monitoring_data s))"
  using length_of_features [of s s' features] by blast

lemmas feature_example_eval =
  feature_example_def load_data_def monitoring_record_def weather_record_def risk_soil_def
  soil_entry_def yield_record_def fill_rendement_final_def date_2021_def day_ns_def hour_ns_def

lemma feature_example_keys:
  "date_columns feature_example \<and> rows (monitoring_data feature_example) \<noteq> [] \<and>
   rows (weather_data feature_example) \<noteq> [] \<and> rows (yield_history feature_example) \<noteq> [] \<and>
   (\<forall>m \<in> set (rows (monitoring_data feature_example)). length (soil_matches feature_example m) \<le> 1) \<and>
   (\<forall>m \<in> set (rows (monitoring_data feature_example)). length (yield_matches feature_example m) \<le> 1)"
  by (simp add: feature_example_eval date_columns_def soil_matches_def yield_matches_def)

lemma feature_example_setup:
  "setup_temporal_indices feature_example = Inr feature_example_indexed"
  by (simp add: feature_example_indexed_def setup_temporal_indices_def set_index_date_def
      feature_example_def load_data_def)

lemma feature_example_first_call:
  "map_sum id fst (prepare_features feature_example) = Inr feature_example_indexed"
proof -
  from prepare_features_unique_keys [OF feature_example_keys]
  obtain s' ft where p: "prepare_features feature_example = Inr (s', ft)" by blast
  from prepare_features_Inr [OF p] feature_example_setup have "s' = feature_example_indexed"
    by auto
  with p show ?thesis by simp
qed

lemma feature_example_sorted:
  "sort_key m_date (rows (monitoring_data feature_example)) =
     [monitoring_record (date_2021 1) ''P1'' ''Ble'',
      monitoring_record (date_2021 1) ''P2'' ''Orge'',
      monitoring_record (date_2021 2) ''P1'' ''Ble'']"
  by (simp add: feature_example_eval)

lemma feature_example_cultures:
  "map (yield_culture feature_example) (sort_key m_date (rows (monitoring_data feature_example)))
     = [Some ''Mais'', None, None]"
  unfolding feature_example_sorted
  by (simp add: feature_example_eval yield_culture_def yield_matches_def)

text \<open>The theorem of C4 at the example tables.\<close>

theorem feature_table_row_count_witness:
  "list_all (\<lambda>m. length (soil_matches feature_example m) \<le> 1)
     (rows (monitoring_data feature_example)) \<and>
   list_all (\<lambda>m. length (yield_matches feature_example m) \<le> 1)
     (rows (monitoring_data feature_example)) \<and>
   length (rows (monitoring_data feature_example)) = 3 \<and>
   (\<exists>s' features. prepare_features feature_example = Inr (s', features) \<and> length features = 3)"
proof -
  have n: "length (rows (monitoring_data feature_example)) = 3"
    by (simp add: feature_example_eval)
  from prepare_features_unique_keys [OF feature_example_keys]
  obtain s' ft where p: "prepare_features feature_example = Inr (s', ft)" by blast
  from feature_table_row_count [of feature_example s' ft] p n have "length ft = 3" by simp
  with p have "\<exists>s' features. prepare_features feature_example = Inr (s', features) \<and>
      length features = 3"
    by (intro exI conjI)
  with n feature_example_keys show ?thesis by (simp add: list_all_iff)
qed

text \<open>The theorem of C9 at the example tables.\<close>

theorem feature_culture_from_yield_history_witness:
  "\<exists>s' features. prepare_features feature_example = Inr (s', features) \<and>
     map f_culture features = [Some ''Mais'', None, None]"
proof -
  from prepare_features_unique_keys [OF feature_example_keys]
  obtain s' ft where p: "prepare_features feature_example = Inr (s', ft)" by blast
  from feature_culture_from_yield_history [OF p] have "map f_culture ft = [Some ''Mais'', None, None]"
    by (simp only: feature_example_cultures)
  with p show ?thesis by (intro exI conjI)
qed

text \<open>
  Claim C9 as stated (the FeatureTable keeps Monitoring's culture) fails on the
  example tables: Monitoring says wheat for P1 on 2021-01-01 and the FeatureTable
  says maize, the culture of the yield history; where the yield history has no
  record the FeatureTable's culture is null.
\<close>

theorem feature_culture_counterexample:
  "map_sum id (map f_culture \<circ> snd) (prepare_features feature_example)
     = Inr [Some ''Mais'', None, None] \<and>
   map m_culture (sort_key m_date (rows (monitoring_data feature_example)))
     = [Some ''Ble'', Some ''Orge'', Some ''Ble'']"
proof -
  from prepare_features_unique_keys [OF feature_example_keys]
  obtain s' ft where p: "prepare_features feature_example = Inr (s', ft)" by blast
  from culture_of_features [OF p] have "map f_culture ft = [Some ''Mais'', None, None]"
    by (simp only: feature_example_cultures)
  with p show ?thesis
    by (simp add: feature_example_sorted monitoring_record_def)
qed

lemma prepare_features_effect:
  assumes "prepare_features s = Inr (s', features)"
  shows "date_columns s \<and> date_indexed s' \<and>
         rows (monitoring_data s') = rows (monitoring_data s) \<and>
         rows (weather_data s') = rows (weather_data s) \<and>
         rows (yield_history s') = rows (yield_history s) \<and>
         soil_data s' = soil_data s \<and>
         prepare_features (reset_indices s') = Inr (s', features)"
proof -
  from prepare_features_Inr [OF assms] have su: "setup_temporal_indices s = Inr s'" by blast
  note same = setup_temporal_indices_Inr [OF su]
  from same(7) assms have "prepare_features (reset_indices s') = Inr (s', features)" by simp
  with same show ?thesis by simp
qed

text \<open>
  Claim C2, as the code has it. \<^verbatim>\<open>prepare_features\<close> is not pure: a call that returns
  has found the date of \<^verbatim>\<open>monitoring_data\<close>, \<^verbatim>\<open>weather_data\<close> and \<^verbatim>\<open>yield_history\<close> as a
  column and leaves it as their index. It changes nothing else: the rows of the three
  tables and \<^verbatim>\<open>soil_data\<close> are as before. Once the indices are reset to columns (as
  \<^verbatim>\<open>add_risk_heatmap\<close> does before it calls), a second call succeeds and returns the
  same FeatureTable as the first.
\<close>

theorem prepare_features_reindexes:
  assumes "prepare_features s = Inr (s', features)"
  shows "date_columns s \<and> date_indexed s' \<and>
         rows (monitoring_data s') = rows (monitoring_data s) \<and>
         rows (weather_data s') = rows (weather_data s) \<and>
         rows (yield_history s') = rows (yield_history s) \<and>
         soil_data s' = soil_data s \<and>
         prepare_features (reset_indices s') = Inr (s', features)"
  using assms by (rule prepare_features_effect)

text \<open>The theorem of C2 at the example tables.\<close>

theorem prepare_features_reindexes_witness:
  "\<exists>features. prepare_features feature_example = Inr (feature_example_indexed, features) \<and>
     date_columns feature_example \<and> date_indexed feature_example_indexed \<and>
     reset_indices feature_example_indexed = feature_example \<and>
     prepare_features (reset_indices feature_example_indexed)
       = Inr (feature_example_indexed, features)"
proof -
  from prepare_features_unique_keys [OF feature_example_keys]
  obtain s' ft where p: "prepare_features feature_example = Inr (s', ft)" by blast
  from feature_example_first_call p have s': "s' = feature_example_indexed" by simp
  from prepare_features_reindexes [OF p] p s'
  have "prepare_features feature_example = Inr (feature_example_indexed, ft) \<and>
     date_columns feature_example \<and> date_indexed feature_example_indexed \<and>
     prepare_features (reset_indices feature_example_indexed)
       = Inr (feature_example_indexed, ft)"
    by simp
  moreover have "reset_indices feature_example_indexed = feature_example"
    using setup_temporal_indices_Inr(7) [OF feature_example_setup] .
  ultimately show ?thesis by blast
qed

text \<open>
  Claim C2 as stated (the tables are unchanged, a second call returns the same
  FeatureTable) fails on the example tables: the first call returns with the three
  tables re-indexed, and a second call on them raises \<^verbatim>\<open>KeyError\<close>, the date being no
  column any more.
\<close>

theorem prepare_features_pure_counterexample:
  "map_sum id fst (prepare_features feature_example) = Inr feature_example_indexed \<and>
   monitoring_data feature_example_indexed \<noteq> monitoring_data feature_example \<and>
   weather_data feature_example_indexed \<noteq> weather_data feature_example \<and>
   yield_history feature_example_indexed \<noteq> yield_history feature_example \<and>
   prepare_features feature_example_indexed = Inl (KeyError ''date'')"
proof -
  have "date_indexed feature_example_indexed"
    using setup_temporal_indices_Inr(2) [OF feature_example_setup] .
  then have "prepare_features feature_example_indexed = Inl (KeyError ''date'')"
    by (simp add: prepare_features_def setup_temporal_indices_twice)
  moreover have "monitoring_data feature_example_indexed \<noteq> monitoring_data feature_example"
    "weather_data feature_example_indexed \<noteq> weather_data feature_example"
    "yield_history feature_example_indexed \<noteq> yield_history feature_example"
    by (simp_all add: feature_example_indexed_def feature_example_def load_data_def)
  ultimately show ?thesis using feature_example_first_call by simp
qed


end
